theory Spec2Isabelle
  imports Complex_Main
begin

section \<open>Conventions of the embedding\<close>

text \<open>
  The TypeScript sources compute with JavaScript values. The embedding uses
  \<^item> \<^typ>\<open>real\<close> for a finite \<open>number\<close>. In the score calculator, whose results pass
    through \<open>Math.round\<close>, every arithmetic operation is the IEEE 754 double-precision
    one: the exact result rounded to the nearest double (\<open>fl\<close> below), and a decimal
    literal denotes the double nearest to it. In the strategy manager a number is the
    real it is written as, and the arithmetic on the ratios and their comparisons with
    the thresholds are exact, so a ratio stored there can differ from the code's in its
    last bit; the one unguarded division (\<open>normalizeRatios\<close>) has the explicit
    non-finite results of JavaScript, see \<open>jsval\<close> below;
  \<^item> a list of UTF-16 code units (\<open>utf16\<close>) for a string that holds Japanese text, and
    \<^typ>\<open>string\<close> for the ASCII strings the code builds itself (cache keys, ids);
  \<^item> an integer number of milliseconds since the epoch for \<open>Date.now()\<close> and for a \<open>Date\<close>
    that is only stored, and a calendar day (\<open>JSDate\<close>) for a \<open>Date\<close> on which the code
    calls calendar methods; both are arguments wherever the code reads the clock;
  \<^item> a function from the number of the draw to its value for \<open>Math.random()\<close>, also an
    argument.
\<close>

type_synonym utf16 = "nat list"

subsection \<open>Double-precision arithmetic\<close>

text \<open>
  Rounding to the nearest integer, a tie going to the even one: the rounding of the
  significand.
\<close>

definition rne :: "real \<Rightarrow> int" where
  "rne y = (let f = \<lfloor>y\<rfloor>
            in if y - of_int f < 1 / 2 then f
               else if y - of_int f > 1 / 2 then f + 1
               else if even f then f else f + 1)"

text \<open>The binary exponent of a positive number: \<open>2\<^sup>e \<le> x < 2\<^sup>e\<^sup>+\<^sup>1\<close> for \<open>e = expo x\<close>.\<close>

function expo :: "real \<Rightarrow> int" where
  "expo x = (if 2 \<le> x then expo (x / 2) + 1
             else if 0 < x \<and> x < 1 then expo (2 * x) - 1
             else 0)"
  by pat_completeness auto
termination
proof (relation "measure (\<lambda>x. nat \<lceil>- log 2 x\<rceil> + nat \<lfloor>log 2 x\<rfloor>)")
  show "wf (measure (\<lambda>x. nat \<lceil>- log 2 x\<rceil> + nat \<lfloor>log 2 x\<rfloor>))"
    by simp
next
  fix x :: real
  assume a: "2 \<le> x"
  then have l: "log 2 (x / 2) = log 2 x - 1"
    by (simp add: log_divide)
  have "1 \<le> log 2 x"
    using a by (simp add: le_log_iff)
  then have "nat \<lceil>- log 2 (x / 2)\<rceil> = 0" "nat \<lceil>- log 2 x\<rceil> = 0"
    "nat \<lfloor>log 2 (x / 2)\<rfloor> < nat \<lfloor>log 2 x\<rfloor>"
    unfolding l by (simp_all add: ceiling_le_iff; linarith)+
  then show "(x / 2, x) \<in> measure (\<lambda>x. nat \<lceil>- log 2 x\<rceil> + nat \<lfloor>log 2 x\<rfloor>)"
    by simp
next
  fix x :: real
  assume a: "\<not> 2 \<le> x" "0 < x \<and> x < 1"
  then have l: "log 2 (2 * x) = log 2 x + 1"
    by (simp add: log_mult)
  have "log 2 x < 0"
    using a by simp
  then have "nat \<lfloor>log 2 (2 * x)\<rfloor> = 0" "nat \<lfloor>log 2 x\<rfloor> = 0"
    "nat \<lceil>- log 2 (2 * x)\<rceil> < nat \<lceil>- log 2 x\<rceil>"
    unfolding l by (simp_all; linarith)+
  then show "(2 * x, x) \<in> measure (\<lambda>x. nat \<lceil>- log 2 x\<rceil> + nat \<lfloor>log 2 x\<rfloor>)"
    by simp
qed

declare expo.simps [simp del]

definition pow2 :: "int \<Rightarrow> real" where
  "pow2 k = (if 0 \<le> k then 2 ^ nat k else 1 / 2 ^ nat (- k))"

text \<open>
  \<open>fl x\<close> is the double nearest to \<open>x\<close>, a tie going to the even significand: \<open>x\<close> is
  scaled so that its significand has 53 bits before the point, rounded, and scaled back.
  The exponent is not bounded: overflow to an infinity and the coarser spacing of the
  subnormal numbers, below \<open>2\<^sup>-\<^sup>1\<^sup>0\<^sup>2\<^sup>2\<close>, are not represented. The counters of the score
  calculator are whole numbers, far from both.
\<close>

definition fl :: "real \<Rightarrow> real" where
  "fl x = (if x = 0 then 0
           else let u = pow2 (expo \<bar>x\<bar> - 52)
                in sgn x * (of_int (rne (\<bar>x\<bar> / u)) * u))"

text \<open>The four arithmetic operators on doubles.\<close>

definition f_add :: "real \<Rightarrow> real \<Rightarrow> real" where
  "f_add a b = fl (a + b)"

definition f_sub :: "real \<Rightarrow> real \<Rightarrow> real" where
  "f_sub a b = fl (a - b)"

definition f_mul :: "real \<Rightarrow> real \<Rightarrow> real" where
  "f_mul a b = fl (a * b)"

definition f_div :: "real \<Rightarrow> real \<Rightarrow> real" where
  "f_div a b = fl (a / b)"

subsection \<open>Other conventions\<close>

text \<open>
  \<open>Math.round\<close>: the nearest integer, a tie going towards \<open>+\<infinity>\<close>. It is defined on the
  value of its argument, without an intermediate rounding.
\<close>

definition Math_round :: "real \<Rightarrow> real" where
  "Math_round x = of_int \<lfloor>x + 1 / 2\<rfloor>"

datatype Platform = Threads | Instagram | Twitter

text \<open>
  The decimal digits of a natural number, and \<open>String(n)\<close> for an integer \<open>n\<close>, as a
  template literal inserts it (below \<open>10\<^sup>2\<^sup>1\<close> in size, where JavaScript still writes
  every digit).
\<close>

definition digit_char :: "nat \<Rightarrow> char" where
  "digit_char d = ''0123456789'' ! d"

fun digits :: "nat \<Rightarrow> string" where
  "digits n = (if n < 10 then [digit_char n] else digits (n div 10) @ [digit_char (n mod 10)])"

declare digits.simps [simp del]

definition Number_toString :: "int \<Rightarrow> string" where
  "Number_toString i = (if i < 0 then CHR ''-'' # digits (nat (- i)) else digits (nat i))"

text \<open>
  A valid \<open>Date\<close>, reduced to what the code reads of it through \<open>getDate\<close>, \<open>setDate\<close>
  and \<open>getDay\<close>: its calendar day in local time, counted in days from Thursday
  1 January 1970. \<open>date.setDate(date.getDate() + i)\<close> moves the calendar day by \<open>i\<close>,
  the runtime carrying over into the next month or year. \<open>getDay()\<close> is the day of the
  week, \<open>0\<close> for Sunday. The time of day is not represented: nothing modelled here
  reads it, and \<open>setDate\<close> keeps it only where the local clock has no daylight-saving
  change, so that two consecutive entries of a schedule are one calendar day apart, not
  always 24 hours.
\<close>

record JSDate =
  dayNumber :: int

definition getDay :: "JSDate \<Rightarrow> int" where
  "getDay date = (dayNumber date + 4) mod 7"

definition addDays :: "JSDate \<Rightarrow> int \<Rightarrow> JSDate" where
  "addDays date i = date\<lparr>dayNumber := dayNumber date + i\<rparr>"

section \<open>scoreCalculator: the platform favourability score\<close>

text \<open>
  The counters of the behaviour data are \<open>number\<close>s. The functions below are defined on
  every real value of them; the values the code can hold are the doubles among these.
\<close>

record UserBehaviorData =
  likesGiven :: real
  commentsGiven :: real
  sharesGiven :: real
  repliesReceived :: real
  postsThisWeek :: real
  postsLastWeek :: real
  averagePostsPerWeek :: real
  postTimings :: "real list"
  trendingHashtagsUsed :: real
  trendingTopicsEngaged :: real
  earlyTrendEngagement :: real
  followersGained :: real
  mentionsReceived :: real
  savedByOthers :: real
  profileVisits :: real

datatype Impact = Positive | Neutral | Negative

text \<open>
  A \<open>ScoreFactor\<close> without its \<open>description\<close>, a display sentence built from the
  counter by a template literal; no score depends on it.
\<close>

record ScoreFactor =
  factor_name :: utf16
  impact :: Impact
  weight :: real

text \<open>The three-way classification \<open>s >= hi ? 'positive' : s >= lo ? 'neutral' : 'negative'\<close>.\<close>

definition impact_of :: "real \<Rightarrow> real \<Rightarrow> real \<Rightarrow> Impact" where
  "impact_of s hi lo = (if s \<ge> hi then Positive else if s \<ge> lo then Neutral else Negative)"

definition calculateEngagementScore :: "UserBehaviorData \<Rightarrow> real \<times> ScoreFactor list" where
  "calculateEngagementScore d =
     (let likeScore = min 25 (f_mul (f_div (likesGiven d) 50) 25);
          commentScore = min 30 (f_mul (f_div (commentsGiven d) 20) 30);
          shareScore = min 20 (f_mul (f_div (sharesGiven d) 10) 20);
          replyRatio = (if repliesReceived d > 0
                        then min 1 (f_div (commentsGiven d) (repliesReceived d))
                        else 1 / 2);
          replyScore = f_mul replyRatio 25;
          totalScore = f_add (f_add (f_add (f_add 0 likeScore) commentScore) shareScore)
                         replyScore
      in (Math_round totalScore,
          [\<lparr>factor_name = [31309, 26997, 30340, 12394, 12356, 12356, 12397],
            impact = impact_of likeScore 15 5, weight = fl 0.25\<rparr>,
           \<lparr>factor_name = [12467, 12513, 12531, 12488, 36002, 29486],
            impact = impact_of commentScore 20 10, weight = fl 0.30\<rparr>,
           \<lparr>factor_name = [12467, 12531, 12486, 12531, 12484, 25313, 25955],
            impact = impact_of shareScore 12 5, weight = fl 0.20\<rparr>,
           \<lparr>factor_name = [36820, 20449, 23550, 24540, 21147],
            impact = impact_of replyScore 15 8, weight = fl 0.25\<rparr>]))"

definition goldenHours :: "real list" where
  "goldenHours = [7, 8, 9, 12, 13, 19, 20, 21, 22]"

definition calculateConsistencyScore :: "UserBehaviorData \<Rightarrow> real \<times> ScoreFactor list" where
  "calculateConsistencyScore d =
     (let frequencyVariance = (if postsLastWeek d > 0
                               then f_div \<bar>f_sub (postsThisWeek d) (postsLastWeek d)\<bar>
                                      (postsLastWeek d)
                               else 1);
          stabilityScore = max 0 (f_sub 40 (f_mul frequencyVariance 40));
          idealPostsPerWeek = 5;
          frequencyDiff = \<bar>f_sub (postsThisWeek d) idealPostsPerWeek\<bar>;
          frequencyScore = max 0 (f_sub 30 (f_mul frequencyDiff 5));
          goldenHourPosts = length (filter (\<lambda>h. h \<in> set goldenHours) (postTimings d));
          timingRatio = (if length (postTimings d) > 0
                         then f_div (real goldenHourPosts) (real (length (postTimings d)))
                         else 0);
          timingScore = f_mul timingRatio 30;
          totalScore = f_add (f_add (f_add 0 stabilityScore) frequencyScore) timingScore
      in (Math_round totalScore,
          [\<lparr>factor_name = [25237, 31295, 38971, 24230, 12398, 23433, 23450, 24615],
            impact = impact_of stabilityScore 30 15, weight = fl 0.40\<rparr>,
           \<lparr>factor_name = [25237, 31295, 38971, 24230],
            impact = impact_of frequencyScore 20 10, weight = fl 0.30\<rparr>,
           \<lparr>factor_name = [25237, 31295, 26178, 38291, 12398, 26368, 36969, 21270],
            impact = impact_of timingScore 20 10, weight = fl 0.30\<rparr>]))"

definition calculateTrendScore :: "UserBehaviorData \<Rightarrow> real \<times> ScoreFactor list" where
  "calculateTrendScore d =
     (let hashtagScore = min 35 (f_mul (f_div (trendingHashtagsUsed d) 5) 35);
          topicScore = min 35 (f_mul (f_div (trendingTopicsEngaged d) 3) 35);
          earlyScore = min 30 (f_mul (f_div (earlyTrendEngagement d) 2) 30);
          totalScore = f_add (f_add (f_add 0 hashtagScore) topicScore) earlyScore
      in (Math_round totalScore,
          [\<lparr>factor_name = [12488, 12524, 12531, 12489, 12479, 12464, 27963, 29992],
            impact = impact_of hashtagScore 25 10, weight = fl 0.35\<rparr>,
           \<lparr>factor_name = [12488, 12524, 12531, 12489, 21442, 21152],
            impact = impact_of topicScore 25 10, weight = fl 0.35\<rparr>,
           \<lparr>factor_name = [26089, 26399, 12488, 12524, 12531, 12489, 21442, 21152],
            impact = impact_of earlyScore 20 10, weight = fl 0.30\<rparr>]))"

definition calculateCommunityScore :: "UserBehaviorData \<Rightarrow> real \<times> ScoreFactor list" where
  "calculateCommunityScore d =
     (let followerScore = min 30 (f_mul (f_div (followersGained d) 10) 30);
          mentionScore = min 25 (f_mul (f_div (mentionsReceived d) 5) 25);
          savedScore = min 25 (f_mul (f_div (savedByOthers d) 10) 25);
          profileScore = min 20 (f_mul (f_div (profileVisits d) 50) 20);
          totalScore = f_add (f_add (f_add (f_add 0 followerScore) mentionScore) savedScore)
                         profileScore
      in (Math_round totalScore,
          [\<lparr>factor_name = [12501, 12457, 12525, 12527, 12540, 29554, 24471],
            impact = impact_of followerScore 20 10, weight = fl 0.30\<rparr>,
           \<lparr>factor_name = [12513, 12531, 12471, 12519, 12531, 21463, 20449],
            impact = impact_of mentionScore 15 8, weight = fl 0.25\<rparr>,
           \<lparr>factor_name = [12467, 12531, 12486, 12531, 12484, 20445, 23384],
            impact = impact_of savedScore 15 8, weight = fl 0.25\<rparr>,
           \<lparr>factor_name = [12503, 12525, 12501, 12451, 12540, 12523, 35370, 21839],
            impact = impact_of profileScore 12 5, weight = fl 0.20\<rparr>]))"

text \<open>
  \<open>calculateOverallScore\<close>: the four products and the three sums are double-precision
  operations, taken from left to right, and the weights are the doubles nearest to
  \<open>0.35\<close>, \<open>0.25\<close> and \<open>0.20\<close>.
\<close>

definition calculateOverallScore :: "real \<Rightarrow> real \<Rightarrow> real \<Rightarrow> real \<Rightarrow> real" where
  "calculateOverallScore engagement consistency trend community =
     Math_round
       (f_add (f_add (f_add (f_mul engagement (fl 0.35)) (f_mul consistency (fl 0.25)))
                 (f_mul trend (fl 0.20)))
          (f_mul community (fl 0.20)))"

record PlatformScore =
  score_id :: string
  score_platform :: Platform
  overallScore :: real
  engagementScore :: real
  consistencyScore :: real
  trendScore :: real
  communityScore :: real
  calculatedAt :: int
  factors :: "ScoreFactor list"

subsection \<open>Recommendations\<close>

datatype Priority = PriorityHigh | PriorityMedium | PriorityLow

datatype ScoreCategory = CatEngagement | CatConsistency | CatTrend | CatCommunity

record ScoreRecommendation =
  rec_id :: string
  priority :: Priority
  rec_category :: ScoreCategory
  title :: utf16
  rec_description :: utf16
  expectedImpact :: real
  actionItems :: "utf16 list"

definition rec_eng_1 :: ScoreRecommendation where
  "rec_eng_1 =
     \<lparr>rec_id = ''eng-1'', priority = PriorityHigh, rec_category = CatEngagement,
      title = [31309, 26997, 30340, 12395, 12467, 12513, 12531, 12488, 12375, 12424, 12358],
      rec_description =
        [12467, 12513, 12531, 12488, 12399, 12503, 12521, 12483, 12488, 12501, 12457, 12540, 12512,
          12364, 26368, 12418, 35413, 20385, 12377, 12427, 34892, 21205, 12290, 39154, 12415,
          20250, 12391, 35328, 12360, 12400, 12300, 35441, 12434, 32862, 12356, 12390, 21453,
          24540, 12377, 12427, 20154, 12301, 12290, 20027, 23472, 32773, 65288, 12503, 12521,
          12483, 12488, 12501, 12457, 12540, 12512, 65289, 12395, 22909, 12414, 12428, 12414,
          12377, 12290],
      expectedImpact = 8,
      actionItems =
        [[27598, 26085, 51, 20214, 20197, 19978, 12289, 20182, 12398, 25237, 31295, 12395, 12467,
           12513, 12531, 12488, 12377, 12427],
         [12488, 12524, 12531, 12489, 25237, 31295, 12408, 12398, 26089, 12356, 12467, 12513, 12531,
           12488, 12399, 29305, 12395, 21177, 26524, 30340],
         [36074, 21839, 24418, 24335, 12398, 12467, 12513, 12531, 12488, 12391, 20250, 35441, 12434,
           29983, 12416]]\<rparr>"

definition rec_eng_2 :: ScoreRecommendation where
  "rec_eng_2 =
     \<lparr>rec_id = ''eng-2'', priority = PriorityMedium, rec_category = CatEngagement,
      title = [12356, 12356, 12397, 12391, 22580, 12434, 30427, 12426, 19978, 12370, 12427],
      rec_description =
        [12300, 30427, 12426, 19978, 12370, 12424, 12358, 12392, 12375, 12390, 12367, 12428, 12427,
          20154, 12301, 12392, 12503, 12521, 12483, 12488, 12501, 12457, 12540, 12512, 12395,
          35469, 35672, 12373, 12428, 12414, 12377, 12290],
      expectedImpact = 5,
      actionItems =
        [[27598, 26085, 49, 48, 20214, 20197, 19978, 12356, 12356, 12397, 12377, 12427],
         [12501, 12457, 12525, 12540, 12375, 12390, 12356, 12427, 20154, 12398, 25237, 31295, 12434,
           20778, 20808],
         [33258, 20998, 12398, 25237, 31295, 24460, 51, 48, 20998, 12399, 20182, 12398, 25237, 31295,
           12395, 12418, 21453, 24540]]\<rparr>"

definition rec_con_1 :: ScoreRecommendation where
  "rec_con_1 =
     \<lparr>rec_id = ''con-1'', priority = PriorityHigh, rec_category = CatConsistency,
      title = [25237, 31295, 38971, 24230, 12434, 19978, 12370, 12424, 12358],
      rec_description =
        [12503, 12521, 12483, 12488, 12501, 12457, 12540, 12512, 12399, 23450, 26399, 30340, 12395,
          27963, 21205, 12377, 12427, 12518, 12540, 12470, 12540, 12434, 20778, 36935, 12375,
          12414, 12377, 12290, 36913, 51, 45, 53, 25237, 31295, 12434, 30446, 25351, 12375,
          12414, 12375, 12423, 12358, 12290],
      expectedImpact = 7,
      actionItems =
        [[36913, 51, 22238, 20197, 19978, 12398, 25237, 31295, 12434, 32722, 24931, 21270],
         [25237, 31295, 12459, 12524, 12531, 12480, 12540, 12434, 20316, 25104, 12377, 12427],
         [19979, 26360, 12365, 12434, 12473, 12488, 12483, 12463, 12375, 12390, 12362, 12367]]\<rparr>"

definition rec_con_2 :: ScoreRecommendation where
  "rec_con_2 =
     \<lparr>rec_id = ''con-2'', priority = PriorityMedium, rec_category = CatConsistency,
      title = [25237, 31295, 26178, 38291, 12434, 26368, 36969, 21270],
      rec_description =
        [12468, 12540, 12523, 12487, 12531, 12479, 12452, 12512, 65288, 55, 45, 57, 26178, 12289, 49,
          50, 45, 49, 51, 26178, 12289, 49, 57, 45, 50, 50, 26178, 65289, 12395, 25237,
          31295, 12377, 12427, 12392, 38706, 20986, 12364, 22679, 12360, 12414, 12377, 12290],
      expectedImpact = 5,
      actionItems =
        [[26397, 12398, 36890, 21220, 26178, 38291, 24111, 40, 55, 45, 57, 26178, 41, 12395, 25237,
           31295],
         [26172, 20241, 12415, 40, 49, 50, 45, 49, 51, 26178, 41, 12395, 25237, 31295],
         [22812, 12398, 12522, 12521, 12483, 12463, 12473, 12479, 12452, 12512, 40, 49, 57, 45, 50,
           50, 26178, 41, 12395, 25237, 31295]]\<rparr>"

definition rec_trend_1 :: ScoreRecommendation where
  "rec_trend_1 =
     \<lparr>rec_id = ''trend-1'', priority = PriorityHigh, rec_category = CatTrend,
      title = [12488, 12524, 12531, 12489, 12395, 20055, 12429, 12358],
      rec_description =
        [12488, 12524, 12531, 12489, 12408, 12398, 21442, 21152, 12399, 12300, 12415, 12435, 12394,
          12398, 12383, 12417, 12395, 30427, 12426, 19978, 12370, 12424, 12358, 12392, 12375,
          12390, 12356, 12427, 12301, 12392, 12503, 12521, 12483, 12488, 12501, 12457, 12540,
          12512, 12395, 35469, 35672, 12373, 12428, 12427, 26368, 12418, 21177, 26524, 30340,
          12394, 26041, 27861, 12391, 12377, 12290],
      expectedImpact = 9,
      actionItems =
        [[27598, 26085, 12488, 12524, 12531, 12489, 12434, 12481, 12455, 12483, 12463, 12377, 12427],
         [12488, 12524, 12531, 12489, 12479, 12464, 12434, 49, 45, 50, 20491, 21547, 12417, 12390,
           25237, 31295],
         [12488, 12524, 12531, 12489, 21021, 26399, 12395, 21442, 21152, 12377, 12427, 12392, 21177,
           26524, 20493, 22679]]\<rparr>"

definition rec_com_1 :: ScoreRecommendation where
  "rec_com_1 =
     \<lparr>rec_id = ''com-1'', priority = PriorityMedium, rec_category = CatCommunity,
      title = [20445, 23384, 12375, 12383, 12367, 12394, 12427, 12467, 12531, 12486, 12531, 12484, 12434],
      rec_description =
        [12300, 12354, 12394, 12383, 12399, 12371, 12428, 12364, 32862, 12365, 12383, 12356, 12435,
          12391, 12377, 12397, 12301, 12395, 24540, 12360, 12427, 12467, 12531, 12486, 12531,
          12484, 12399, 20445, 23384, 12373, 12428, 12420, 12377, 12367, 12289, 12503, 12521,
          12483, 12488, 12501, 12457, 12540, 12512, 12398, 35413, 20385, 12364, 19978, 12364,
          12426, 12414, 12377, 12290],
      expectedImpact = 6,
      actionItems =
        [[12495, 12454, 12484, 12540, 12539, 12481, 12517, 12540, 12488, 12522, 12450, 12523, 24418,
           24335, 12398, 25237, 31295],
         [12414, 12392, 12417, 12539, 12522, 12473, 12488, 24418, 24335, 12398, 25237, 31295],
         [20445, 23384, 12434, 20419, 12377, 67, 84, 65, 12434, 20837, 12428, 12427]]\<rparr>"

fun priorityOrder :: "Priority \<Rightarrow> nat" where
  "priorityOrder PriorityHigh = 0"
| "priorityOrder PriorityMedium = 1"
| "priorityOrder PriorityLow = 2"

text \<open>
  \<open>generateRecommendations\<close>: the recommendations are pushed in the order of the source
  and then sorted by priority; \<open>Array.prototype.sort\<close> is stable, as \<open>sort_key\<close> is.
\<close>

definition generateRecommendations ::
  "UserBehaviorData \<Rightarrow> real \<Rightarrow> real \<Rightarrow> real \<Rightarrow> real \<Rightarrow> ScoreRecommendation list" where
  "generateRecommendations d engagement consistency trend community =
     (let goldenHourPosts = length (filter (\<lambda>h. h \<in> set goldenHours) (postTimings d));
          recommendations =
            (if engagement < 70
             then (if commentsGiven d < 10 then [rec_eng_1] else [])
                  @ (if likesGiven d < 30 then [rec_eng_2] else [])
             else [])
            @ (if consistency < 70
               then (if postsThisWeek d < 3 then [rec_con_1] else [])
                    @ (if real goldenHourPosts < f_mul (real (length (postTimings d))) 0.5
                       then [rec_con_2] else [])
               else [])
            @ (if trend < 70
               then (if trendingTopicsEngaged d < 2 then [rec_trend_1] else [])
               else [])
            @ (if community < 70
               then (if savedByOthers d < 5 then [rec_com_1] else [])
               else [])
      in sort_key (\<lambda>r. priorityOrder (priority r)) recommendations)"

subsection \<open>The display history\<close>

record ScoreHistoryEntry =
  hist_date :: JSDate
  hist_overallScore :: real
  hist_engagementScore :: real
  hist_consistencyScore :: real
  hist_trendScore :: real
  hist_communityScore :: real

text \<open>
  \<open>generateScoreHistory\<close>: the loop counts \<open>i\<close> down from \<open>days - 1\<close> to \<open>0\<close>; its \<open>k\<close>-th
  turn (\<open>k\<close> from \<open>0\<close>) has \<open>i = days - 1 - k\<close> and makes the draws \<open>5k, ..., 5k + 4\<close> of
  \<open>Math.random()\<close>. \<open>today\<close> is the calendar day of \<open>new Date()\<close>.
\<close>

definition generateScoreHistory ::
  "(nat \<Rightarrow> real) \<Rightarrow> JSDate \<Rightarrow> PlatformScore \<Rightarrow> nat \<Rightarrow> ScoreHistoryEntry list" where
  "generateScoreHistory random today currentScore days =
     map (\<lambda>k.
           (let i = days - 1 - k;
                date = addDays today (- int i);
                variation = f_mul (f_div (real i) (real days)) 15
            in \<lparr>hist_date = date,
                hist_overallScore =
                  max 0 (f_add (f_sub (overallScore currentScore) variation)
                           (f_mul (random (5 * k)) 5)),
                hist_engagementScore =
                  max 0 (f_add (f_sub (engagementScore currentScore) variation)
                           (f_mul (random (5 * k + 1)) 5)),
                hist_consistencyScore =
                  max 0 (f_add (f_sub (consistencyScore currentScore) variation)
                           (f_mul (random (5 * k + 2)) 5)),
                hist_trendScore =
                  max 0 (f_add (f_sub (trendScore currentScore) variation)
                           (f_mul (random (5 * k + 3)) 5)),
                hist_communityScore =
                  max 0 (f_add (f_sub (communityScore currentScore) variation)
                           (f_mul (random (5 * k + 4)) 5))\<rparr>))
         [0..<days]"

subsection \<open>The main function\<close>

record ScoreCalculationResult =
  score :: PlatformScore
  recommendations :: "ScoreRecommendation list"
  history :: "ScoreHistoryEntry list"

text \<open>
  \<open>calculatePlatformScore\<close>. \<open>now\<close> is the clock in milliseconds, read for the id and for
  \<open>calculatedAt\<close>; \<open>today\<close> and \<open>random\<close> are what the history reads.
\<close>

definition calculatePlatformScore ::
  "int \<Rightarrow> JSDate \<Rightarrow> (nat \<Rightarrow> real) \<Rightarrow> Platform \<Rightarrow> UserBehaviorData
   \<Rightarrow> ScoreCalculationResult" where
  "calculatePlatformScore now today random p d =
     (let engagementResult = calculateEngagementScore d;
          consistencyResult = calculateConsistencyScore d;
          trendResult = calculateTrendScore d;
          communityResult = calculateCommunityScore d;
          overall = calculateOverallScore (fst engagementResult) (fst consistencyResult)
                      (fst trendResult) (fst communityResult);
          allFactors = snd engagementResult @ snd consistencyResult
                       @ snd trendResult @ snd communityResult;
          sc = \<lparr>score_id = ''score-'' @ Number_toString now, score_platform = p,
                 overallScore = overall,
                 engagementScore = fst engagementResult,
                 consistencyScore = fst consistencyResult,
                 trendScore = fst trendResult,
                 communityScore = fst communityResult,
                 calculatedAt = now, factors = allFactors\<rparr>;
          recs = generateRecommendations d (fst engagementResult) (fst consistencyResult)
                   (fst trendResult) (fst communityResult);
          hist = generateScoreHistory random today sc 7
      in \<lparr>score = sc, recommendations = recs, history = hist\<rparr>)"

text \<open>The behaviour data whose fourteen counters are all zero and that lists no post.\<close>

definition zeroData :: UserBehaviorData where
  "zeroData = \<lparr>likesGiven = 0, commentsGiven = 0, sharesGiven = 0, repliesReceived = 0,
     postsThisWeek = 0, postsLastWeek = 0, averagePostsPerWeek = 0, postTimings = [],
     trendingHashtagsUsed = 0, trendingTopicsEngaged = 0, earlyTrendEngagement = 0,
     followersGained = 0, mentionsReceived = 0, savedByOthers = 0, profileVisits = 0\<rparr>"

section \<open>strategyManager: the engagement strategy\<close>

subsection \<open>The values a ratio field can hold\<close>

text \<open>
  \<open>normalizeRatios\<close> divides by a sum that can be zero, and \<open>importStrategy\<close> copies
  whatever the JSON text holds into the strategy. A ratio field is therefore modelled as
  one of the values that these two paths can leave there: a finite number, \<open>NaN\<close>,
  \<open>+Infinity\<close>, \<open>-Infinity\<close>, or \<open>null\<close> (what \<open>JSON.stringify\<close> writes for a
  non-finite number). Signed zeros are not distinguished: the only zero divisor of the
  code is a sum \<open>x + y\<close>, which is \<open>-0\<close> only when both operands are, and then the
  quotient is \<open>NaN\<close> either way.
\<close>

datatype jsval = Num real | NaN | PosInf | NegInf | Null

text \<open>\<open>ToNumber\<close>, applied by every arithmetic operator and comparison: \<open>null\<close> is \<open>0\<close>.\<close>

fun ToNumber :: "jsval \<Rightarrow> jsval" where
  "ToNumber Null = Num 0"
| "ToNumber v = v"

fun num_add :: "jsval \<Rightarrow> jsval \<Rightarrow> jsval" where
  "num_add (Num x) (Num y) = Num (x + y)"
| "num_add NaN _ = NaN"
| "num_add _ NaN = NaN"
| "num_add PosInf NegInf = NaN"
| "num_add NegInf PosInf = NaN"
| "num_add PosInf _ = PosInf"
| "num_add _ PosInf = PosInf"
| "num_add NegInf _ = NegInf"
| "num_add _ NegInf = NegInf"
| "num_add _ _ = NaN"

definition js_add :: "jsval \<Rightarrow> jsval \<Rightarrow> jsval" where
  "js_add a b = num_add (ToNumber a) (ToNumber b)"

fun num_div :: "jsval \<Rightarrow> jsval \<Rightarrow> jsval" where
  "num_div (Num x) (Num y) =
     (if y = 0 then (if x = 0 then NaN else if x > 0 then PosInf else NegInf)
      else Num (x / y))"
| "num_div (Num x) PosInf = Num 0"
| "num_div (Num x) NegInf = Num 0"
| "num_div PosInf (Num y) = (if y \<ge> 0 then PosInf else NegInf)"
| "num_div NegInf (Num y) = (if y \<ge> 0 then NegInf else PosInf)"
| "num_div _ _ = NaN"

definition js_div :: "jsval \<Rightarrow> jsval \<Rightarrow> jsval" where
  "js_div a b = num_div (ToNumber a) (ToNumber b)"

text \<open>The comparisons of a value with a finite constant; each is false on \<open>NaN\<close>.\<close>

fun num_ge :: "jsval \<Rightarrow> real \<Rightarrow> bool" where
  "num_ge (Num x) c = (x \<ge> c)"
| "num_ge PosInf c = True"
| "num_ge _ c = False"

fun num_le :: "jsval \<Rightarrow> real \<Rightarrow> bool" where
  "num_le (Num x) c = (x \<le> c)"
| "num_le NegInf c = True"
| "num_le _ c = False"

fun num_gt :: "jsval \<Rightarrow> real \<Rightarrow> bool" where
  "num_gt (Num x) c = (x > c)"
| "num_gt PosInf c = True"
| "num_gt _ c = False"

fun num_lt :: "jsval \<Rightarrow> real \<Rightarrow> bool" where
  "num_lt (Num x) c = (x < c)"
| "num_lt NegInf c = True"
| "num_lt _ c = False"

definition js_ge :: "jsval \<Rightarrow> real \<Rightarrow> bool" where
  "js_ge v c = num_ge (ToNumber v) c"

definition js_le :: "jsval \<Rightarrow> real \<Rightarrow> bool" where
  "js_le v c = num_le (ToNumber v) c"

definition js_gt :: "jsval \<Rightarrow> real \<Rightarrow> bool" where
  "js_gt v c = num_gt (ToNumber v) c"

definition js_lt :: "jsval \<Rightarrow> real \<Rightarrow> bool" where
  "js_lt v c = num_lt (ToNumber v) c"

subsection \<open>The strategy and its manager\<close>

datatype PostMode = Impression | Expression

record CommentStrategy =
  enabled :: bool
  targetTrendingPosts :: bool
  maxCommentsPerDay :: real
  avoidNegative :: bool

record EngagementStrategy =
  impressionRatio :: jsval
  expressionRatio :: jsval
  weeklyExpressionDays :: "int list"
  commentStrategy :: CommentStrategy

text \<open>
  \<open>Partial<EngagementStrategy>\<close>, the argument of the constructor, and also the content
  of a parsed JSON document handed to \<open>importStrategy\<close>: every field may be absent.
\<close>

record PartialStrategy =
  impressionRatio_opt :: "jsval option"
  expressionRatio_opt :: "jsval option"
  weeklyExpressionDays_opt :: "int list option"
  commentStrategy_opt :: "CommentStrategy option"

definition DEFAULT_STRATEGY :: EngagementStrategy where
  "DEFAULT_STRATEGY = \<lparr>impressionRatio = Num 0.9, expressionRatio = Num 0.1,
     weeklyExpressionDays = [0, 6],
     commentStrategy = \<lparr>enabled = True, targetTrendingPosts = True,
                         maxCommentsPerDay = 10, avoidNegative = True\<rparr>\<rparr>"

definition DAY_LABELS :: "utf16 list" where
  "DAY_LABELS = [[26085], [26376], [28779], [27700], [26408], [37329], [22303]]"

text \<open>The object spread \<open>{ ...DEFAULT_STRATEGY, ...strategy }\<close>: a field that is present wins.\<close>

definition merge_defaults :: "PartialStrategy \<Rightarrow> EngagementStrategy" where
  "merge_defaults p =
     \<lparr>impressionRatio = (case impressionRatio_opt p of
                            None \<Rightarrow> impressionRatio DEFAULT_STRATEGY | Some v \<Rightarrow> v),
      expressionRatio = (case expressionRatio_opt p of
                            None \<Rightarrow> expressionRatio DEFAULT_STRATEGY | Some v \<Rightarrow> v),
      weeklyExpressionDays = (case weeklyExpressionDays_opt p of
                            None \<Rightarrow> weeklyExpressionDays DEFAULT_STRATEGY | Some v \<Rightarrow> v),
      commentStrategy = (case commentStrategy_opt p of
                            None \<Rightarrow> commentStrategy DEFAULT_STRATEGY | Some v \<Rightarrow> v)\<rparr>"

definition normalizeRatios :: "EngagementStrategy \<Rightarrow> EngagementStrategy" where
  "normalizeRatios s =
     (let total = js_add (impressionRatio s) (expressionRatio s)
      in if total \<noteq> Num 1
         then s\<lparr>impressionRatio := js_div (impressionRatio s) total,
                expressionRatio := js_div (expressionRatio s) total\<rparr>
         else s)"

text \<open>The constructor; \<open>None\<close> is the call without an argument.\<close>

definition StrategyManager_new :: "PartialStrategy option \<Rightarrow> EngagementStrategy" where
  "StrategyManager_new strategy =
     normalizeRatios (case strategy of None \<Rightarrow> DEFAULT_STRATEGY | Some p \<Rightarrow> merge_defaults p)"

definition setImpressionRatio :: "real \<Rightarrow> EngagementStrategy \<Rightarrow> EngagementStrategy" where
  "setImpressionRatio ratio s =
     (let clampedRatio = max 0.5 (min 1 ratio)
      in s\<lparr>impressionRatio := Num clampedRatio, expressionRatio := Num (1 - clampedRatio)\<rparr>)"

definition setExpressionDays :: "int list \<Rightarrow> EngagementStrategy \<Rightarrow> EngagementStrategy" where
  "setExpressionDays days s = s\<lparr>weeklyExpressionDays := filter (\<lambda>d. d \<ge> 0 \<and> d \<le> 6) days\<rparr>"

subsection \<open>Recommended mode and weekly schedule\<close>

definition getRecommendedMode :: "EngagementStrategy \<Rightarrow> JSDate \<Rightarrow> PostMode" where
  "getRecommendedMode s date =
     (let dayOfWeek = getDay date
      in if dayOfWeek \<in> set (weeklyExpressionDays s) then Expression else Impression)"

record WeeklyScheduleItem =
  item_date :: JSDate
  dayOfWeek :: int
  dayLabel :: utf16
  recommendedMode :: PostMode
  isExpressionDay :: bool

text \<open>One turn of the loop body of \<open>generateWeeklySchedule\<close>, for the loop counter \<open>i\<close>.\<close>

definition scheduleItem :: "EngagementStrategy \<Rightarrow> JSDate \<Rightarrow> nat \<Rightarrow> WeeklyScheduleItem" where
  "scheduleItem s startDate i =
     (let date = addDays startDate (int i);
          dow = getDay date;
          isExpr = (dow \<in> set (weeklyExpressionDays s))
      in \<lparr>item_date = date, dayOfWeek = dow, dayLabel = DAY_LABELS ! nat dow,
          recommendedMode = (if isExpr then Expression else Impression),
          isExpressionDay = isExpr\<rparr>)"

text \<open>The loop \<open>for (let i = 0; i < 7; i++) schedule.push(...)\<close>.\<close>

definition generateWeeklySchedule :: "EngagementStrategy \<Rightarrow> JSDate \<Rightarrow> WeeklyScheduleItem list" where
  "generateWeeklySchedule s startDate = map (scheduleItem s startDate) [0..<7]"

subsection \<open>Ratio health\<close>

datatype HealthStatus = Healthy | Acceptable | Warning | Critical

record RatioHealthCheck =
  status :: HealthStatus
  message :: utf16

definition isRatioHealthy :: "EngagementStrategy \<Rightarrow> RatioHealthCheck" where
  "isRatioHealthy s =
     (let r = impressionRatio s
      in if js_ge r 0.8 \<and> js_le r 0.95 then
           \<lparr>status = Healthy,
            message = [29702, 24819, 30340, 12394, 27604, 29575, 12391, 12377, 12290, 20182,
              20154, 12364, 32862, 12365, 12383, 12356, 12371, 12392, 12434, 20013, 24515,
              12395, 30330, 20449, 12375, 12388, 12388, 12289, 33258, 24049, 34920, 29694,
              12398, 26178, 38291, 12418, 30906, 20445, 12391, 12365, 12390, 12356, 12414,
              12377, 12290]\<rparr>
         else if js_gt r 0.95 then
           \<lparr>status = Warning,
            message = [33258, 24049, 34920, 29694, 12364, 23569, 12394, 12377, 12366, 12414,
              12377, 12290, 29123, 12360, 23613, 12365, 12434, 38450, 12368, 12383, 12417,
              12289, 23569, 12375, 33258, 20998, 12398, 22909, 12365, 12394, 12371, 12392,
              12418, 30330, 20449, 12375, 12414, 12375, 12423, 12358, 12290]\<rparr>
         else if js_lt r 0.7 then
           \<lparr>status = Critical,
            message = [33258, 24049, 34920, 29694, 12364, 22810, 12377, 12366, 12414, 12377,
              12290, 12452, 12531, 12503, 12524, 12483, 12471, 12519, 12531, 29554, 24471,
              12395, 12399, 12300, 20182, 20154, 12364, 32862, 12365, 12383, 12356, 12371,
              12392, 12301, 12434, 22679, 12420, 12375, 12414, 12375, 12423, 12358, 12290]\<rparr>
         else
           \<lparr>status = Acceptable,
            message = [35377, 23481, 31684, 22258, 12391, 12377, 12364, 12289, 25913, 21892,
              12398, 20313, 22320, 12364, 12354, 12426, 12414, 12377, 12290]\<rparr>)"

subsection \<open>Post classification\<close>

text \<open>\<open>content.includes(kw)\<close>: the keyword occurs as a run of consecutive code units.\<close>

fun starts_with :: "'a list \<Rightarrow> 'a list \<Rightarrow> bool" where
  "starts_with cs [] = True"
| "starts_with [] (k # ks) = False"
| "starts_with (c # cs) (k # ks) = (c = k \<and> starts_with cs ks)"

fun str_includes :: "'a list \<Rightarrow> 'a list \<Rightarrow> bool" where
  "str_includes [] kw = (kw = [])"
| "str_includes (c # cs) kw = (starts_with (c # cs) kw \<or> str_includes cs kw)"

definition expressionKeywords :: "utf16 list" where
  "expressionKeywords =
     [[20491, 20154, 30340], [31169, 12399], [24605, 12358], [24863, 12376, 12427],
      [22909, 12365], [23244, 12356], [26085, 35352], [38609, 35527],
      [12388, 12406, 12420, 12365], [29420, 12426, 35328]]"

definition impressionKeywords :: "utf16 list" where
  "impressionKeywords =
     [[26041, 27861], [12467, 12484], [12509, 12452, 12531, 12488], [35299, 35500],
      [32057, 20171], [12362, 12377, 12377, 12417], [12414, 12392, 12417],
      [12521, 12531, 12461, 12531, 12464], [12488, 12524, 12531, 12489],
      [30693, 35672], [24773, 22577], [12494, 12454, 12495, 12454],
      [116, 105, 112, 115]]"

record PostClassification =
  suggestedMode :: PostMode
  confidence :: real
  expressionScore :: nat
  impressionScore :: nat

definition classifyPost :: "utf16 \<Rightarrow> PostClassification" where
  "classifyPost content =
     (let expressionScore = length (filter (\<lambda>kw. str_includes content kw) expressionKeywords);
          impressionScore = length (filter (\<lambda>kw. str_includes content kw) impressionKeywords);
          suggestedMode = (if impressionScore \<ge> expressionScore then Impression else Expression)
      in \<lparr>suggestedMode = suggestedMode,
          confidence = \<bar>real impressionScore - real expressionScore\<bar> / 5,
          expressionScore = expressionScore,
          impressionScore = impressionScore\<rparr>)"

subsection \<open>Export and import\<close>

text \<open>
  \<open>exportStrategy\<close> writes the strategy with \<open>JSON.stringify\<close>. The text is represented
  by what \<open>JSON.parse\<close> reads back from it: every field present, a finite number
  unchanged, and \<open>null\<close> in place of \<open>NaN\<close> and of the infinities.
\<close>

fun json_number :: "jsval \<Rightarrow> jsval" where
  "json_number (Num x) = Num x"
| "json_number v = Null"

definition exportStrategy :: "EngagementStrategy \<Rightarrow> PartialStrategy" where
  "exportStrategy s =
     \<lparr>impressionRatio_opt = Some (json_number (impressionRatio s)),
      expressionRatio_opt = Some (json_number (expressionRatio s)),
      weeklyExpressionDays_opt = Some (weeklyExpressionDays s),
      commentStrategy_opt = Some (commentStrategy s)\<rparr>"

datatype strategy_error = InvalidStrategyData

text \<open>
  \<open>importStrategy\<close>: the argument is the result of \<open>JSON.parse\<close> on the text, \<open>None\<close>
  when the text is not JSON, which the \<open>catch\<close> turns into the one error the
  method throws ("invalid strategy data"). The result is the manager's new strategy.
\<close>

definition importStrategy :: "PartialStrategy option \<Rightarrow> strategy_error + EngagementStrategy" where
  "importStrategy parsed =
     (case parsed of
        None \<Rightarrow> Inl InvalidStrategyData
      | Some p \<Rightarrow> Inr (normalizeRatios (merge_defaults p)))"

section \<open>trendDetector: trends behind a cache\<close>

subsection \<open>Data\<close>

datatype TrendCategory =
  Entertainment | Technology | Lifestyle | Business | News | Sports | Education | Other

datatype TrendSentiment = SentPositive | SentNegative | SentNeutral | SentMixed

text \<open>
  A \<open>TrendingTopic\<close>. The mock table fills every field. A topic built from the
  language model's JSON holds whatever the JSON held, because the code casts without
  checking; the model keeps that visible for the one field the code later dereferences,
  \<open>relatedHashtags\<close>, which is \<open>None\<close> when the JSON object had no array there, and takes
  the other fields at the type of the cast.
\<close>

record TrendingTopic =
  topic_id :: string
  topic_name :: utf16
  topic_platform :: Platform
  topic_category :: TrendCategory
  volume :: real
  growthRate :: real
  sentiment :: TrendSentiment
  relatedHashtags :: "utf16 list option"
  peakHour :: real
  recommendationScore :: real
  detectedAt :: int

text \<open>An element of the array that \<open>JSON.parse\<close> returns for the model's answer.\<close>

record RawTopic =
  raw_name :: utf16
  raw_category :: TrendCategory
  raw_volume :: real
  raw_growthRate :: real
  raw_sentiment :: TrendSentiment
  raw_relatedHashtags :: "utf16 list option"
  raw_peakHour :: real
  raw_recommendationScore :: real

datatype Level = Low | Medium | High

datatype TrendingStatus = Rising | Stable | Declining

record HashtagAnalysis =
  hashtag :: utf16
  hashtag_platform :: Platform
  popularity :: real
  competitionLevel :: Level
  relevanceScore :: real
  trendingStatus :: TrendingStatus
  relatedTopics :: "utf16 list"
  bestTimeToUse :: "nat list"
  estimatedReach :: real

datatype BuzzPatternType =
  PatStorytelling | PatEducational | PatControversial | PatInspirational | PatHumor
  | PatBreakingNews | PatListicle | PatQuestion | PatBehindTheScenes

record BuzzPattern =
  pattern_id :: string
  pattern_platform :: Platform
  patternType :: BuzzPatternType
  pattern_description :: utf16
  successRate :: real
  averageEngagement :: real
  examples :: "utf16 list"
  requiredElements :: "utf16 list"
  optimalLength_min :: real
  optimalLength_max :: real
  bestHashtagCount :: real

datatype Recommendation = RecHighlyRecommended | RecRecommended | RecAcceptable | RecAvoid

record OptimalPostTiming =
  timing_platform :: Platform
  timing_dayOfWeek :: nat
  timing_hour :: nat
  engagementMultiplier :: real
  audienceActive :: real
  competition :: Level
  recommendation :: Recommendation

record TrendDetectionRequest =
  req_platform :: Platform
  req_category :: "TrendCategory option"
  req_limit :: "int option"
  includeHashtags :: "bool option"
  includeBuzzPatterns :: "bool option"

record TrendDetectionResponse =
  trends :: "TrendingTopic list"
  recommendedHashtags :: "HashtagAnalysis list"
  buzzPatterns :: "BuzzPattern list"
  optimalTimings :: "OptimalPostTiming list"
  analyzedAt :: int

subsection \<open>Strings the code builds\<close>

fun platform_str :: "Platform \<Rightarrow> string" where
  "platform_str Threads = ''threads''"
| "platform_str Instagram = ''instagram''"
| "platform_str Twitter = ''twitter''"

fun category_str :: "TrendCategory \<Rightarrow> string" where
  "category_str Entertainment = ''entertainment''"
| "category_str Technology = ''technology''"
| "category_str Lifestyle = ''lifestyle''"
| "category_str Business = ''business''"
| "category_str News = ''news''"
| "category_str Sports = ''sports''"
| "category_str Education = ''education''"
| "category_str Other = ''other''"

subsection \<open>Static tables\<close>

definition PLATFORM_DEFAULT_CATEGORIES :: "Platform \<Rightarrow> TrendCategory list" where
  "PLATFORM_DEFAULT_CATEGORIES p =
     (case p of Threads \<Rightarrow> [Lifestyle, Entertainment, Technology]
      | Instagram \<Rightarrow> [Lifestyle, Entertainment, Business]
      | Twitter \<Rightarrow> [News, Technology, Entertainment])"

text \<open>The multiplier of each hour \<open>0..23\<close>, in the order of the hours.\<close>

fun HOURLY_ENGAGEMENT_MULTIPLIERS :: "Platform \<Rightarrow> real list" where
  "HOURLY_ENGAGEMENT_MULTIPLIERS Threads =
     [0.3, 0.2, 0.1, 0.1, 0.1, 0.2, 0.5, 0.8, 0.9, 0.7, 0.6, 0.7,
      0.9, 0.7, 0.6, 0.6, 0.7, 0.8, 0.9, 1.0, 1.0, 0.9, 0.7, 0.5]"
| "HOURLY_ENGAGEMENT_MULTIPLIERS Instagram =
     [0.3, 0.2, 0.1, 0.1, 0.1, 0.2, 0.6, 0.7, 0.8, 0.6, 0.5, 0.7,
      0.8, 0.6, 0.5, 0.5, 0.6, 0.8, 0.9, 1.0, 1.0, 0.9, 0.7, 0.4]"
| "HOURLY_ENGAGEMENT_MULTIPLIERS Twitter =
     [0.4, 0.3, 0.2, 0.2, 0.2, 0.3, 0.5, 0.8, 0.9, 0.8, 0.7, 0.8,
      1.0, 0.8, 0.7, 0.7, 0.8, 0.9, 0.9, 0.8, 0.7, 0.6, 0.5, 0.4]"

fun BUZZ_PATTERN_TEMPLATES :: "Platform \<Rightarrow> BuzzPattern list" where
  "BUZZ_PATTERN_TEMPLATES Threads =
     [
      \<lparr>pattern_id = ''threads-storytelling'', pattern_platform = Threads, patternType = PatStorytelling,
       pattern_description = [20491, 20154, 30340, 12394, 20307, 39443, 12434, 20849, 26377, 12377, 12427, 12473, 12488,
            12540, 12522, 12540, 24418, 24335],
       successRate = 0.75, averageEngagement = 2500,
       examples =
         [[21435, 24180, 12414, 12391, 9675, 9675, 12384, 12387, 12383, 33258, 20998, 12364, 12289,
            20170, 12391, 12399, 46, 46, 46],
          [22833, 25943, 12363, 12425, 23398, 12435, 12384, 51, 12388, 12398, 12371, 12392]],
       requiredElements =
         [[23566, 20837, 12398, 12501, 12483, 12463],
          [36578, 27231, 12392, 12394, 12427, 20986, 26469, 20107],
          [23398, 12403, 12420, 27671, 12389, 12365]],
       optimalLength_min = 200, optimalLength_max = 500, bestHashtagCount = 3\<rparr>,
      \<lparr>pattern_id = ''threads-educational'', pattern_platform = Threads, patternType = PatEducational,
       pattern_description = [30693, 35672, 12420, 12494, 12454, 12495, 12454, 12434, 20849, 26377, 12377, 12427, 25945,
            32946, 30340, 12467, 12531, 12486, 12531, 12484],
       successRate = 0.7, averageEngagement = 2000,
       examples =
         [[9675, 9675, 12377, 12427, 26041, 27861, 12434, 53, 12473, 12486, 12483, 12503, 12391, 35299,
            35500],
          [30693, 12425, 12394, 12356, 12392, 25613, 12377, 12427, 9675, 9675, 12398, 12467, 12484]],
       requiredElements =
         [[26126, 30906, 12394, 20385, 20516, 25552, 26696],
          [20855, 20307, 30340, 12394, 12473, 12486, 12483, 12503],
          [23455, 36341, 21487, 33021, 12394, 12450, 12489, 12496, 12452, 12473]],
       optimalLength_min = 150, optimalLength_max = 450, bestHashtagCount = 3\<rparr>,
      \<lparr>pattern_id = ''threads-question'', pattern_platform = Threads, patternType = PatQuestion,
       pattern_description = [12501, 12457, 12525, 12527, 12540, 12395, 21839, 12356, 12363, 12369, 12427, 24418, 24335],
       successRate = 0.65, averageEngagement = 1800,
       examples =
         [[12415, 12435, 12394, 12399, 9675, 9675, 12395, 12388, 12356, 12390, 12393, 12358, 24605,
            12358, 63],
          [9675, 9675, 12392, 9675, 9675, 12289, 12393, 12387, 12385, 27966, 63]],
       requiredElements =
         [[26126, 30906, 12394, 36074, 21839],
          [22238, 31572, 12375, 12420, 12377, 12356, 36984, 25246, 32930],
          [20849, 24863, 12391, 12365, 12427, 12486, 12540, 12510]],
       optimalLength_min = 50, optimalLength_max = 200, bestHashtagCount = 2\<rparr>]"
| "BUZZ_PATTERN_TEMPLATES Instagram =
     [
      \<lparr>pattern_id = ''instagram-behind-the-scenes'', pattern_platform = Instagram, patternType = PatBehindTheScenes,
       pattern_description = [26222, 27573, 35211, 12379, 12394, 12356, 33310, 21488, 35023, 12434, 20844, 38283],
       successRate = 0.8, averageEngagement = 3500,
       examples =
         [[26222, 27573, 12399, 35211, 12379, 12394, 12356, 20316, 26989, 39080, 26223],
          [9675, 9675, 12398, 35023, 20596, 12434, 12362, 35211, 12379, 12375, 12414, 12377]],
       requiredElements =
         [[12522, 12450, 12523, 12394, 30636, 38291],
          [20154, 38291, 21619, 12398, 12354, 12427, 20869, 23481],
          [20385, 20516, 12354, 12427, 33310, 21488, 35023, 24773, 22577]],
       optimalLength_min = 100, optimalLength_max = 2200, bestHashtagCount = 15\<rparr>,
      \<lparr>pattern_id = ''instagram-inspirational'', pattern_platform = Instagram, patternType = PatInspirational,
       pattern_description = [24863, 21205, 12420, 20849, 24863, 12434, 21628, 12406, 12452, 12531, 12473, 12500, 12524,
            12540, 12471, 12519, 12490, 12523, 12467, 12531, 12486, 12531, 12484],
       successRate = 0.72, averageEngagement = 3000,
       examples =
         [[35558, 12417, 12363, 12369, 12383, 12392, 12365, 12395, 24605, 12356, 20986, 12377, 12371,
            12392],
          [9675, 24180, 21069, 12398, 33258, 20998, 12395, 20253, 12360, 12383, 12356, 35328, 33865]],
       requiredElements =
         [[24863, 24773, 12395, 35380, 12360, 12427, 12501, 12483, 12463],
          [12473, 12488, 12540, 12522, 12540, 24615],
          [21069, 21521, 12365, 12394, 12513, 12483, 12475, 12540, 12472]],
       optimalLength_min = 150, optimalLength_max = 2000, bestHashtagCount = 15\<rparr>]"
| "BUZZ_PATTERN_TEMPLATES Twitter =
     [
      \<lparr>pattern_id = ''twitter-controversial'', pattern_platform = Twitter, patternType = PatControversial,
       pattern_description = [35696, 35542, 12434, 21628, 12406, 24847, 35211, 34920, 26126],
       successRate = 0.6, averageEngagement = 5000,
       examples =
         [[9675, 9675, 12399, 23455, 12399, 9675, 9675, 12384, 12392, 24605, 12358, 12290, 29702, 30001,
            12399, 46, 46, 46],
          [20154, 27671, 12398, 9675, 9675, 12289, 23455, 12399, 21177, 26524, 12364, 12394, 12356,
            12387, 12390, 30693, 12387, 12390, 12383, 63]],
       requiredElements =
         [[26126, 30906, 12394, 20027, 24373],
          [26681, 25312, 12398, 25552, 31034],
          [35696, 35542, 12398, 20313, 22320]],
       optimalLength_min = 50, optimalLength_max = 280, bestHashtagCount = 2\<rparr>,
      \<lparr>pattern_id = ''twitter-listicle'', pattern_platform = Twitter, patternType = PatListicle,
       pattern_description = [12522, 12473, 12488, 24418, 24335, 12398, 24773, 22577, 20849, 26377],
       successRate = 0.68, averageEngagement = 4000,
       examples =
         [[9675, 9675, 12395, 24441, 31435, 12388, 12484, 12540, 12523, 53, 36984],
          [25104, 21151, 32773, 12395, 20849, 36890, 12377, 12427, 51, 12388, 12398, 32722, 24931]],
       requiredElements =
         [[25968, 23383, 12434, 21547, 12416, 12479, 12452, 12488, 12523],
          [20855, 20307, 30340, 12394, 38917, 30446],
          [20445, 23384, 12375, 12383, 12367, 12394, 12427, 20385, 20516]],
       optimalLength_min = 100, optimalLength_max = 280, bestHashtagCount = 2\<rparr>]"

subsection \<open>The mock table\<close>

text \<open>
  The table \<open>mockTopics\<close> of \<open>getMockTrendingTopics\<close>; every \<open>detectedAt\<close> is the time
  at which the table is built, that is, the time of the call.
\<close>

fun mockTopics :: "int \<Rightarrow> Platform \<Rightarrow> TrendingTopic list" where
  "mockTopics now Threads =
     [
      \<lparr>topic_id = ''trend-threads-1'',
       topic_name = [65, 73, 27963, 29992, 34899],
       topic_platform = Threads, topic_category = Technology,
       volume = 15000, growthRate = 1.5, sentiment = SentPositive,
       relatedHashtags = Some
         [[65, 73],
          [29983, 29987, 24615, 21521, 19978],
          [67, 104, 97, 116, 71, 80, 84]],
       peakHour = 12, recommendationScore = 85, detectedAt = now\<rparr>,
      \<lparr>topic_id = ''trend-threads-2'',
       topic_name = [21103, 26989, 12539, 12501, 12522, 12540, 12521, 12531, 12473],
       topic_platform = Threads, topic_category = Business,
       volume = 12000, growthRate = 1.3, sentiment = SentPositive,
       relatedHashtags = Some
         [[21103, 26989],
          [12501, 12522, 12540, 12521, 12531, 12473],
          [22312, 23429, 12527, 12540, 12463]],
       peakHour = 20, recommendationScore = 80, detectedAt = now\<rparr>,
      \<lparr>topic_id = ''trend-threads-3'',
       topic_name = [33258, 24049, 25237, 36039],
       topic_platform = Threads, topic_category = Lifestyle,
       volume = 10000, growthRate = 1.2, sentiment = SentPositive,
       relatedHashtags = Some
         [[33258, 24049, 25237, 36039],
          [35501, 26360],
          [23398, 12403]],
       peakHour = 21, recommendationScore = 75, detectedAt = now\<rparr>,
      \<lparr>topic_id = ''trend-threads-4'',
       topic_name = [83, 78, 83, 36939, 29992],
       topic_platform = Threads, topic_category = Business,
       volume = 8000, growthRate = 1.4, sentiment = SentNeutral,
       relatedHashtags = Some
         [[83, 78, 83, 36939, 29992],
          [12510, 12540, 12465, 12486, 12451, 12531, 12464],
          [12501, 12457, 12525, 12527, 12540]],
       peakHour = 19, recommendationScore = 78, detectedAt = now\<rparr>,
      \<lparr>topic_id = ''trend-threads-5'',
       topic_name = [12511, 12491, 12510, 12522, 12473, 12488],
       topic_platform = Threads, topic_category = Lifestyle,
       volume = 6000, growthRate = 1.1, sentiment = SentPositive,
       relatedHashtags = Some
         [[12511, 12491, 12510, 12522, 12473, 12488],
          [26029, 25448, 38626],
          [12471, 12531, 12503, 12523, 12521, 12452, 12501]],
       peakHour = 22, recommendationScore = 70, detectedAt = now\<rparr>]"
| "mockTopics now Instagram =
     [
      \<lparr>topic_id = ''trend-instagram-1'',
       topic_name = [12521, 12452, 12501, 12473, 12479, 12452, 12523],
       topic_platform = Instagram, topic_category = Lifestyle,
       volume = 25000, growthRate = 1.2, sentiment = SentPositive,
       relatedHashtags = Some
         [[26286, 12425, 12375],
          [26085, 24120],
          [12521, 12452, 12501, 12473, 12479, 12452, 12523]],
       peakHour = 20, recommendationScore = 82, detectedAt = now\<rparr>,
      \<lparr>topic_id = ''trend-instagram-2'',
       topic_name = [12459, 12501, 12455, 24033, 12426],
       topic_platform = Instagram, topic_category = Entertainment,
       volume = 18000, growthRate = 1.3, sentiment = SentPositive,
       relatedHashtags = Some
         [[12459, 12501, 12455],
          [12459, 12501, 12455, 24033, 12426],
          [12467, 12540, 12498, 12540]],
       peakHour = 15, recommendationScore = 75, detectedAt = now\<rparr>,
      \<lparr>topic_id = ''trend-instagram-3'',
       topic_name = [12501, 12451, 12483, 12488, 12493, 12473],
       topic_platform = Instagram, topic_category = Lifestyle,
       volume = 20000, growthRate = 1.4, sentiment = SentPositive,
       relatedHashtags = Some
         [[31563, 12488, 12524],
          [12501, 12451, 12483, 12488, 12493, 12473],
          [12480, 12452, 12456, 12483, 12488]],
       peakHour = 7, recommendationScore = 80, detectedAt = now\<rparr>]"
| "mockTopics now Twitter =
     [
      \<lparr>topic_id = ''trend-twitter-1'',
       topic_name = [12486, 12483, 12463, 26989, 30028],
       topic_platform = Twitter, topic_category = Technology,
       volume = 30000, growthRate = 1.6, sentiment = SentMixed,
       relatedHashtags = Some
         [[12486, 12483, 12463],
          [12456, 12531, 12472, 12491, 12450],
          [12503, 12525, 12464, 12521, 12511, 12531, 12464]],
       peakHour = 12, recommendationScore = 88, detectedAt = now\<rparr>,
      \<lparr>topic_id = ''trend-twitter-2'',
       topic_name = [12491, 12517, 12540, 12473, 36895, 22577],
       topic_platform = Twitter, topic_category = News,
       volume = 50000, growthRate = 2.0, sentiment = SentNeutral,
       relatedHashtags = Some
         [[36895, 22577],
          [12491, 12517, 12540, 12473],
          [26368, 26032]],
       peakHour = 8, recommendationScore = 70, detectedAt = now\<rparr>,
      \<lparr>topic_id = ''trend-twitter-3'',
       topic_name = [12473, 12479, 12540, 12488, 12450, 12483, 12503],
       topic_platform = Twitter, topic_category = Business,
       volume = 15000, growthRate = 1.4, sentiment = SentPositive,
       relatedHashtags = Some
         [[12473, 12479, 12540, 12488, 12450, 12483, 12503],
          [36215, 26989],
          [86, 67]],
       peakHour = 17, recommendationScore = 82, detectedAt = now\<rparr>]"

text \<open>
  \<open>topics.slice(0, limit)\<close> for an integer \<open>limit\<close>: a negative end counts from the end
  of the array.
\<close>

definition slice0 :: "'a list \<Rightarrow> int \<Rightarrow> 'a list" where
  "slice0 xs n = take (nat (if n < 0 then int (length xs) + n else n)) xs"

definition getMockTrendingTopics ::
  "int \<Rightarrow> Platform \<Rightarrow> TrendCategory option \<Rightarrow> int \<Rightarrow> TrendingTopic list" where
  "getMockTrendingTopics now p category limit =
     (let topics = mockTopics now p;
          topics = (case category of
                      None \<Rightarrow> topics
                    | Some c \<Rightarrow> filter (\<lambda>t. topic_category t = c) topics)
      in slice0 topics limit)"

subsection \<open>Trend generation\<close>

text \<open>
  What the awaited \<open>client.messages.create\<close> call, followed by the read of
  \<open>response.content[0]\<close>, comes to: an exception, or the response text (empty when the
  first content block is not text).
\<close>

datatype llm_outcome = Throws | Replies utf16

text \<open>
  \<open>responseText.match(/\[[\s\S]*\]/)\<close>: the leftmost match starts at the first \<open>[\<close>
  (code unit 91) and, the star being greedy, runs to the last \<open>]\<close> (code unit 93) after
  it; there is no match when no \<open>]\<close> follows the first \<open>[\<close>.
\<close>

definition jsonMatch :: "utf16 \<Rightarrow> utf16 option" where
  "jsonMatch text =
     (case dropWhile (\<lambda>c. c \<noteq> 91) text of
        [] \<Rightarrow> None
      | c # rest \<Rightarrow>
          (let body = rev (dropWhile (\<lambda>c. c \<noteq> 93) (rev rest))
           in if body = [] then None else Some (c # body)))"

text \<open>
  \<open>generateTrendingTopics\<close>. \<open>JSON_parse\<close> stands for \<open>JSON.parse\<close> on the matched
  text: \<open>None\<close> when it throws a \<open>SyntaxError\<close>, otherwise the array, in which an element
  is \<open>None\<close> when it is \<open>null\<close> (reading \<open>topic.name\<close> of it throws a \<open>TypeError\<close>).
  Everything thrown inside the \<open>try\<close> ends in the \<open>catch\<close>, which returns the mock topics.
  The prompt sent to the model is not represented; the model's answer is the argument
  \<open>llm\<close>.
\<close>

definition generateTrendingTopics ::
  "(utf16 \<Rightarrow> RawTopic option list option) \<Rightarrow> bool \<Rightarrow> llm_outcome \<Rightarrow> int
   \<Rightarrow> Platform \<Rightarrow> TrendCategory option \<Rightarrow> int \<Rightarrow> TrendingTopic list" where
  "generateTrendingTopics JSON_parse hasClient llm now p category limit =
     (if \<not> hasClient then getMockTrendingTopics now p category limit
      else case llm of
        Throws \<Rightarrow> getMockTrendingTopics now p category limit
      | Replies responseText \<Rightarrow>
          (case jsonMatch responseText of
             None \<Rightarrow> getMockTrendingTopics now p category limit
           | Some matched \<Rightarrow>
               (case JSON_parse matched of
                  None \<Rightarrow> getMockTrendingTopics now p category limit
                | Some topicsData \<Rightarrow>
                    (case those topicsData of
                       None \<Rightarrow> getMockTrendingTopics now p category limit
                     | Some raws \<Rightarrow>
                         map (\<lambda>(index, topic).
                               \<lparr>topic_id = ''trend-'' @ platform_str p @ ''-''
                                   @ Number_toString now @ ''-'' @ Number_toString (int index),
                                topic_name = raw_name topic,
                                topic_platform = p,
                                topic_category = raw_category topic,
                                volume = raw_volume topic,
                                growthRate = raw_growthRate topic,
                                sentiment = raw_sentiment topic,
                                relatedHashtags = raw_relatedHashtags topic,
                                peakHour = raw_peakHour topic,
                                recommendationScore = raw_recommendationScore topic,
                                detectedAt = now\<rparr>)
                             (enumerate 0 raws)))))"

subsection \<open>Hashtags, buzz patterns, timings\<close>

definition getBestTimesForHashtag :: "Platform \<Rightarrow> nat list" where
  "getBestTimesForHashtag p =
     filter (\<lambda>hour. HOURLY_ENGAGEMENT_MULTIPLIERS p ! hour \<ge> 0.8) [0..<24]"

datatype js_error = TypeError

text \<open>The elements of a \<open>Set\<close> in insertion order: the first occurrence of each is kept.\<close>

definition insertion_order :: "'a list \<Rightarrow> 'a list" where
  "insertion_order xs = rev (remdups (rev xs))"

text \<open>
  \<open>analyzeHashtags\<close>. \<open>trend.relatedHashtags.forEach\<close> throws a \<open>TypeError\<close> on a trend
  without the array, and nothing catches it. \<open>random k\<close> is the value of the \<open>k\<close>-th
  call of \<open>Math.random()\<close> within this call; each hashtag draws three.
\<close>

definition analyzeHashtags ::
  "(nat \<Rightarrow> real) \<Rightarrow> Platform \<Rightarrow> TrendingTopic list \<Rightarrow> js_error + HashtagAnalysis list" where
  "analyzeHashtags random p ts =
     (case those (map relatedHashtags ts) of
        None \<Rightarrow> Inl TypeError
      | Some tagLists \<Rightarrow>
          (let allHashtags = insertion_order (concat tagLists);
               hashtags = take 20 allHashtags
           in Inr (map (\<lambda>(index, tag).
                 (let popularity = of_int \<lfloor>random (3 * index) * 100\<rfloor> + 1
                  in \<lparr>hashtag = tag,
                      hashtag_platform = p,
                      popularity = popularity,
                      competitionLevel = (if popularity > 70 then High
                                          else if popularity > 40 then Medium else Low),
                      relevanceScore = of_int \<lfloor>random (3 * index + 1) * 40\<rfloor> + 60,
                      trendingStatus = (if index < 5 then Rising
                                        else if index < 15 then Stable else Declining),
                      relatedTopics =
                        map topic_name
                          (filter (\<lambda>t. case relatedHashtags t of
                                          None \<Rightarrow> False | Some tags \<Rightarrow> tag \<in> set tags) ts),
                      bestTimeToUse = getBestTimesForHashtag p,
                      estimatedReach = of_int \<lfloor>random (3 * index + 2) * 50000\<rfloor> + 1000\<rparr>))
               (enumerate 0 hashtags))))"

definition getBuzzPatterns :: "Platform \<Rightarrow> BuzzPattern list" where
  "getBuzzPatterns p = BUZZ_PATTERN_TEMPLATES p"

text \<open>One turn of the inner loop of \<open>calculateOptimalTimings\<close>.\<close>

definition optimalTiming :: "Platform \<Rightarrow> nat \<Rightarrow> nat \<Rightarrow> OptimalPostTiming" where
  "optimalTiming p day hour =
     (let m = HOURLY_ENGAGEMENT_MULTIPLIERS p ! hour;
          multiplier = (if m = 0 then 0.5 else m)
      in \<lparr>timing_platform = p, timing_dayOfWeek = day, timing_hour = hour,
          engagementMultiplier = multiplier,
          audienceActive = of_int \<lfloor>multiplier * 100\<rfloor>,
          competition = (if multiplier > 0.8 then High
                         else if multiplier > 0.5 then Medium else Low),
          recommendation = (if multiplier \<ge> 0.9 then RecHighlyRecommended
                            else if multiplier \<ge> 0.7 then RecRecommended
                            else if multiplier \<ge> 0.4 then RecAcceptable else RecAvoid)\<rparr>)"

definition calculateOptimalTimings :: "Platform \<Rightarrow> OptimalPostTiming list" where
  "calculateOptimalTimings p =
     concat (map (\<lambda>day. map (\<lambda>hour. optimalTiming p day hour) [0..<24]) [0..<7])"

subsection \<open>The detector and its cache\<close>

text \<open>
  The state of a \<open>TrendDetector\<close>: the key, whether a client object exists, and the cache,
  a map from the cache key to the stored response and its timestamp. \<open>generationCalls\<close>
  is not a field of the class: it counts the calls of \<open>generateTrendingTopics\<close>, so
  that a statement that no generation took place can be made about the state.
\<close>

record TrendDetector =
  apiKey :: "string option"
  client :: bool
  cachedTrends :: "string \<rightharpoonup> TrendDetectionResponse \<times> int"
  generationCalls :: nat

definition cacheExpiryMs :: int where
  "cacheExpiryMs = 30 * 60 * 1000"

definition TrendDetector_new :: "string option \<Rightarrow> TrendDetector" where
  "TrendDetector_new key =
     (let k = (case key of None \<Rightarrow> None | Some s \<Rightarrow> if s = [] then None else Some s)
      in \<lparr>apiKey = k, client = (k \<noteq> None), cachedTrends = Map.empty, generationCalls = 0\<rparr>)"

definition setApiKey :: "string \<Rightarrow> TrendDetector \<Rightarrow> TrendDetector" where
  "setApiKey key st = st\<lparr>apiKey := Some key, client := True\<rparr>"

definition clearCache :: "TrendDetector \<Rightarrow> TrendDetector" where
  "clearCache st = st\<lparr>cachedTrends := Map.empty\<rparr>"

text \<open>\<open>request.limit || 10\<close>: an absent limit and the limit \<open>0\<close> both give \<open>10\<close>.\<close>

definition limit_or_10 :: "int option \<Rightarrow> int" where
  "limit_or_10 l = (case l of None \<Rightarrow> 10 | Some n \<Rightarrow> if n = 0 then 10 else n)"

definition getCacheKey :: "TrendDetectionRequest \<Rightarrow> string" where
  "getCacheKey request =
     platform_str (req_platform request) @ ''-''
     @ (case req_category request of None \<Rightarrow> ''all'' | Some c \<Rightarrow> category_str c) @ ''-''
     @ Number_toString (limit_or_10 (req_limit request))"

text \<open>
  What one call of \<open>detectTrends\<close> reads from outside: the clock on entry, the clock
  after the awaited generation (used for every later reading within the call), the
  outcome of the language model call, should one be made, and the random numbers.
\<close>

record CallEnv =
  entryTime :: int
  buildTime :: int
  llm :: llm_outcome
  random :: "nat \<Rightarrow> real"

definition detectTrends ::
  "(utf16 \<Rightarrow> RawTopic option list option) \<Rightarrow> TrendDetector \<Rightarrow> TrendDetectionRequest \<Rightarrow> CallEnv
   \<Rightarrow> (js_error + TrendDetectionResponse) \<times> TrendDetector" where
  "detectTrends JSON_parse st request env =
     (let cacheKey = getCacheKey request;
          cached = cachedTrends st cacheKey;
          hit = (case cached of
                   None \<Rightarrow> None
                 | Some (data, timestamp) \<Rightarrow>
                     if entryTime env - timestamp < cacheExpiryMs then Some data else None)
      in case hit of
           Some data \<Rightarrow> (Inr data, st)
         | None \<Rightarrow>
            (let p = req_platform request;
                 category = req_category request;
                 limit = (case req_limit request of None \<Rightarrow> 10 | Some n \<Rightarrow> n);
                 ts = generateTrendingTopics JSON_parse (client st) (llm env) (buildTime env)
                        p category limit;
                 st1 = st\<lparr>generationCalls := generationCalls st + 1\<rparr>;
                 hashtagsResult = (if includeHashtags request \<noteq> Some False
                                   then analyzeHashtags (random env) p ts else Inr [])
             in case hashtagsResult of
                  Inl e \<Rightarrow> (Inl e, st1)
                | Inr recommended \<Rightarrow>
                   (let patterns = (if includeBuzzPatterns request \<noteq> Some False
                                    then getBuzzPatterns p else []);
                        timings = calculateOptimalTimings p;
                        response = \<lparr>trends = ts, recommendedHashtags = recommended,
                                     buzzPatterns = patterns, optimalTimings = timings,
                                     analyzedAt = buildTime env\<rparr>
                    in (Inr response,
                        st1\<lparr>cachedTrends := (cachedTrends st1)(cacheKey \<mapsto> (response, buildTime env))\<rparr>))))"

text \<open>
  The states of a detector that was constructed without an API key and on which only
  \<open>detectTrends\<close> and \<open>clearCache\<close> have been called since (\<open>setApiKey\<close> is the only way
  to acquire a client).
\<close>

inductive keyless :: "(utf16 \<Rightarrow> RawTopic option list option) \<Rightarrow> TrendDetector \<Rightarrow> bool"
  for JSON_parse :: "utf16 \<Rightarrow> RawTopic option list option" where
  keyless_new: "keyless JSON_parse (TrendDetector_new None)"
| keyless_detect: "keyless JSON_parse st \<Longrightarrow> keyless JSON_parse (snd (detectTrends JSON_parse st request env))"
| keyless_clear: "keyless JSON_parse st \<Longrightarrow> keyless JSON_parse (clearCache st)"

subsection \<open>Notions used to state the properties of the detector\<close>

text \<open>The cache test at the head of \<open>detectTrends\<close>: the stored response, if still fresh.\<close>

definition cache_hit ::
  "TrendDetector \<Rightarrow> TrendDetectionRequest \<Rightarrow> CallEnv \<Rightarrow> TrendDetectionResponse option" where
  "cache_hit st request env =
     (case cachedTrends st (getCacheKey request) of
        None \<Rightarrow> None
      | Some (data, timestamp) \<Rightarrow>
          if entryTime env - timestamp < cacheExpiryMs then Some data else None)"

text \<open>The destructuring default \<open>limit = 10\<close>: only an absent limit is replaced.\<close>

definition requested_limit :: "TrendDetectionRequest \<Rightarrow> int" where
  "requested_limit request = (case req_limit request of None \<Rightarrow> 10 | Some n \<Rightarrow> n)"

text \<open>The response that \<open>detectTrends\<close> assembles from the trends and the hashtags.\<close>

definition built_response ::
  "TrendDetectionRequest \<Rightarrow> CallEnv \<Rightarrow> TrendingTopic list \<Rightarrow> HashtagAnalysis list
   \<Rightarrow> TrendDetectionResponse" where
  "built_response request env ts hs =
     \<lparr>trends = ts, recommendedHashtags = hs,
      buzzPatterns = (if includeBuzzPatterns request \<noteq> Some False
                      then getBuzzPatterns (req_platform request) else []),
      optimalTimings = calculateOptimalTimings (req_platform request),
      analyzedAt = buildTime env\<rparr>"

text \<open>
  The invariant of a detector without a client: every cached response holds the mock
  topics of some request with that cache key.
\<close>

definition mock_backed :: "TrendDetector \<Rightarrow> bool" where
  "mock_backed st \<longleftrightarrow>
     \<not> client st
     \<and> (\<forall>k resp ts. cachedTrends st k = Some (resp, ts) \<longrightarrow>
           (\<exists>req t. k = getCacheKey req
              \<and> trends resp = getMockTrendingTopics t (req_platform req) (req_category req)
                                 (requested_limit req)))"

text \<open>Inputs used to exercise the detector.\<close>

definition news_request :: TrendDetectionRequest where
  "news_request = \<lparr>req_platform = Threads, req_category = Some News, req_limit = Some 10,
     includeHashtags = None, includeBuzzPatterns = None\<rparr>"

text \<open>
  A request for three topics of any category, and one with the limit \<open>-1\<close>, which the
  detector itself does not check.
\<close>

definition three_request :: TrendDetectionRequest where
  "three_request = \<lparr>req_platform = Threads, req_category = None, req_limit = Some 3,
     includeHashtags = None, includeBuzzPatterns = None\<rparr>"

definition minus_one_request :: TrendDetectionRequest where
  "minus_one_request = \<lparr>req_platform = Threads, req_category = None, req_limit = Some (- 1),
     includeHashtags = None, includeBuzzPatterns = None\<rparr>"

definition quiet_env :: "int \<Rightarrow> llm_outcome \<Rightarrow> CallEnv" where
  "quiet_env t answer = \<lparr>entryTime = t, buildTime = t, llm = answer, random = (\<lambda>k. 0)\<rparr>"


definition bracket_x_text :: utf16 where
  "bracket_x_text = [91, 120, 93]"

definition reject_all :: "utf16 \<Rightarrow> RawTopic option list option" where
  "reject_all m = None"

text \<open>A parsed object that has a name and nothing else of use: no hashtag array.\<close>

definition bare_topic :: RawTopic where
  "bare_topic = \<lparr>raw_name = [120], raw_category = Other, raw_volume = 0, raw_growthRate = 0,
     raw_sentiment = SentNeutral, raw_relatedHashtags = None, raw_peakHour = 0,
     raw_recommendationScore = 0\<rparr>"

text \<open>A week of ordinary activity, used to exercise the scoring theorems.\<close>

definition epoch_day :: JSDate where
  "epoch_day = \<lparr>dayNumber = 0\<rparr>"

definition no_random :: "nat \<Rightarrow> real" where
  "no_random k = 0"

definition sampleData :: UserBehaviorData where
  "sampleData = \<lparr>likesGiven = 40, commentsGiven = 12, sharesGiven = 4, repliesReceived = 16,
     postsThisWeek = 4, postsLastWeek = 5, averagePostsPerWeek = 4, postTimings = [7, 12, 15, 21],
     trendingHashtagsUsed = 3, trendingTopicsEngaged = 2, earlyTrendEngagement = 1,
     followersGained = 6, mentionsReceived = 2, savedByOthers = 7, profileVisits = 35\<rparr>"


text \<open>Inputs used to exercise the strategy manager.\<close>

definition three_impression_text :: utf16 where
  "three_impression_text = [26041, 27861, 32, 12467, 12484, 32, 12509, 12452, 12531, 12488]"

definition six_impression_text :: utf16 where
  "six_impression_text = [26041, 27861, 12467, 12484, 12509, 12452, 12531, 12488, 35299, 35500,
     32057, 20171, 12362, 12377, 12377, 12417]"

definition sunday_2024_01_07 :: JSDate where
  "sunday_2024_01_07 = \<lparr>dayNumber = 19729\<rparr>"

definition zeroRatios :: PartialStrategy where
  "zeroRatios = \<lparr>impressionRatio_opt = Some (Num 0), expressionRatio_opt = Some (Num 0),
     weeklyExpressionDays_opt = None, commentStrategy_opt = None\<rparr>"

section \<open>Properties of the score calculator\<close>

lemma Math_round_mono: "x \<le> y \<Longrightarrow> Math_round x \<le> Math_round y"
  by (simp add: Math_round_def floor_mono)


subsection \<open>Rounding to a double is monotone\<close>

lemma rne_of_int [simp]: "rne (of_int k) = k"
  by (simp add: rne_def)

lemma rne_numeral [simp]: "rne (numeral n) = numeral n"
  by (simp add: rne_def)

lemma rne_bounds:
  "of_int (rne y) \<le> y + 1 / 2" "y - 1 / 2 \<le> of_int (rne y)"
  "\<lfloor>y\<rfloor> \<le> rne y" "rne y \<le> \<lfloor>y\<rfloor> + 1"
  unfolding rne_def Let_def by (auto; linarith)+

lemma rne_mono:
  assumes "x \<le> y"
  shows "rne x \<le> rne y"
proof (cases "\<lfloor>x\<rfloor> = \<lfloor>y\<rfloor>")
  case True
  then show ?thesis
    using assms unfolding rne_def Let_def by auto
next
  case False
  moreover have "\<lfloor>x\<rfloor> \<le> \<lfloor>y\<rfloor>"
    using assms by (rule floor_mono)
  ultimately have "\<lfloor>x\<rfloor> + 1 \<le> \<lfloor>y\<rfloor>"
    by simp
  then show ?thesis
    using rne_bounds(4) [of x] rne_bounds(3) [of y] by linarith
qed

lemma pow2_pos [simp]: "0 < pow2 k"
  by (simp add: pow2_def)

lemma pow2_Suc: "pow2 (k + 1) = 2 * pow2 k"
proof -
  consider "0 \<le> k" | "k = - 1" | "k < - 1"
    by linarith
  then show ?thesis
  proof cases
    case 1
    then show ?thesis
      by (simp add: pow2_def nat_add_distrib)
  next
    case 2
    then show ?thesis
      by (simp add: pow2_def)
  next
    case 3
    then have "nat (- k) = Suc (nat (- (k + 1)))"
      by simp
    then have "(2::real) ^ nat (- k) = 2 * 2 ^ nat (- (k + 1))"
      by simp
    then show ?thesis
      using 3 by (simp add: pow2_def)
  qed
qed

lemma pow2_add_nat: "pow2 (k + int n) = pow2 k * 2 ^ n"
proof (induction n)
  case 0
  show ?case by simp
next
  case (Suc n)
  have "pow2 (k + int (Suc n)) = pow2 ((k + int n) + 1)"
    by (simp add: algebra_simps)
  also have "\<dots> = 2 * pow2 (k + int n)"
    by (rule pow2_Suc)
  finally show ?case
    using Suc by simp
qed

lemma pow2_mono:
  assumes "k \<le> l"
  shows "pow2 k \<le> pow2 l"
proof -
  obtain n where "l = k + int n"
    using assms by (metis zle_iff_zadd)
  then show ?thesis
    by (simp add: pow2_add_nat)
qed

lemma pow2_less_imp: "pow2 k < pow2 l \<Longrightarrow> k < l"
  using pow2_mono [of l k] by (cases "k < l") auto

text \<open>The exponent brackets its argument between two consecutive powers of two.\<close>

lemma expo_bounds: "0 < x \<Longrightarrow> pow2 (expo x) \<le> x \<and> x < pow2 (expo x + 1)"
proof (induction x rule: expo.induct)
  case (1 x)
  show ?case
  proof (cases "2 \<le> x")
    case True
    then have e: "expo x = expo (x / 2) + 1"
      by (subst expo.simps) simp
    have "pow2 (expo (x / 2)) \<le> x / 2 \<and> x / 2 < pow2 (expo (x / 2) + 1)"
      using 1(1) [OF True] 1(3) by simp
    then show ?thesis
      unfolding e
      using pow2_Suc [of "expo (x / 2)"] pow2_Suc [of "expo (x / 2) + 1"] by linarith
  next
    case False
    show ?thesis
    proof (cases "x < 1")
      case True
      then have e: "expo x = expo (2 * x) - 1"
        using False 1(3) by (subst expo.simps) simp
      have ih: "pow2 (expo (2 * x)) \<le> 2 * x \<and> 2 * x < pow2 (expo (2 * x) + 1)"
        using 1(2) [OF False] True 1(3) by simp
      have "pow2 (expo (2 * x)) = 2 * pow2 (expo (2 * x) - 1)"
        using pow2_Suc [of "expo (2 * x) - 1"] by simp
      moreover have "pow2 (expo (2 * x) - 1 + 1) = pow2 (expo (2 * x))"
        by simp
      ultimately show ?thesis
        unfolding e using ih pow2_Suc [of "expo (2 * x)"] by linarith
    next
      case ge1: False
      then have "expo x = 0"
        using False by (subst expo.simps) simp
      then show ?thesis
        using False ge1 by (simp add: pow2_def)
    qed
  qed
qed

lemma expo_mono:
  assumes "0 < x" and "x \<le> y"
  shows "expo x \<le> expo y"
proof -
  have "pow2 (expo x) < pow2 (expo y + 1)"
    using assms expo_bounds [of x] expo_bounds [of y] by linarith
  then have "expo x < expo y + 1"
    by (rule pow2_less_imp)
  then show ?thesis
    by simp
qed

lemma fl_zero [simp]: "fl 0 = 0"
  by (simp add: fl_def)

lemma fl_minus: "fl (- x) = - fl x"
  by (simp add: fl_def Let_def sgn_if)

lemma fl_pos: "0 < x \<Longrightarrow> fl x = of_int (rne (x / pow2 (expo x - 52))) * pow2 (expo x - 52)"
  by (simp add: fl_def Let_def)

text \<open>A positive number and its double lie in the same binade, ends included.\<close>

lemma fl_pos_range:
  assumes "0 < x"
  shows "pow2 (expo x) \<le> fl x" and "fl x \<le> pow2 (expo x + 1)"
proof -
  let ?u = "pow2 (expo x - 52)"
  have "expo x = expo x - 52 + int 52"
    by simp
  then have e: "pow2 (expo x) = ?u * 2 ^ 52"
    by (metis pow2_add_nat)
  have "expo x + 1 = expo x - 52 + int 53"
    by simp
  then have e1: "pow2 (expo x + 1) = ?u * 2 ^ 53"
    by (simp only: pow2_add_nat)
  have lo: "(2::real) ^ 52 \<le> x / ?u"
    using expo_bounds [OF assms] e by (simp add: pos_le_divide_eq mult.commute)
  have hi: "x / ?u \<le> 2 ^ 53"
    using expo_bounds [OF assms] e1 by (simp add: pos_divide_le_eq mult.commute)
  have "rne (of_int (2 ^ 52)) \<le> rne (x / ?u)"
    using lo by (intro rne_mono) simp
  then have a: "(2::int) ^ 52 \<le> rne (x / ?u)"
    by simp
  have "rne (x / ?u) \<le> rne (of_int (2 ^ 53))"
    using hi by (intro rne_mono) simp
  then have b: "rne (x / ?u) \<le> (2::int) ^ 53"
    by simp
  have "(of_int ((2::int) ^ 52) :: real) \<le> of_int (rne (x / ?u))"
    using a by (simp only: of_int_le_iff)
  then have "(2::real) ^ 52 \<le> of_int (rne (x / ?u))"
    by simp
  then show "pow2 (expo x) \<le> fl x"
    unfolding e fl_pos [OF assms] by (simp add: mult.commute)
  have "(of_int (rne (x / ?u)) :: real) \<le> of_int ((2::int) ^ 53)"
    using b by (simp only: of_int_le_iff)
  then have "of_int (rne (x / ?u)) \<le> (2::real) ^ 53"
    by simp
  then show "fl x \<le> pow2 (expo x + 1)"
    unfolding e1 fl_pos [OF assms] by (simp add: mult.commute)
qed

lemma fl_mono_pos:
  assumes "0 < x" and "x \<le> y"
  shows "fl x \<le> fl y"
proof (cases "expo x = expo y")
  case True
  have y: "0 < y"
    using assms by simp
  have "x / pow2 (expo y - 52) \<le> y / pow2 (expo y - 52)"
    using assms(2) by (intro divide_right_mono) (simp_all add: less_imp_le)
  then have "rne (x / pow2 (expo y - 52)) \<le> rne (y / pow2 (expo y - 52))"
    by (rule rne_mono)
  then show ?thesis
    unfolding fl_pos [OF assms(1)] fl_pos [OF y] True by simp
next
  case False
  have y: "0 < y"
    using assms by simp
  from False expo_mono [OF assms] have "expo x + 1 \<le> expo y"
    by simp
  then have "pow2 (expo x + 1) \<le> pow2 (expo y)"
    by (rule pow2_mono)
  then show ?thesis
    using fl_pos_range(2) [OF assms(1)] fl_pos_range(1) [OF y] by linarith
qed

lemma fl_nonneg:
  assumes "0 \<le> x"
  shows "0 \<le> fl x"
proof (cases "x = 0")
  case True
  then show ?thesis by simp
next
  case False
  with assms have p: "0 < x"
    by simp
  have "0 < pow2 (expo x)"
    by simp
  then show ?thesis
    using fl_pos_range(1) [OF p] by linarith
qed

lemma fl_mono:
  assumes "x \<le> y"
  shows "fl x \<le> fl y"
proof -
  consider "0 < x" | "x \<le> 0" "0 \<le> y" | "y < 0"
    by linarith
  then show ?thesis
  proof cases
    case 1
    then show ?thesis
      using assms by (rule fl_mono_pos)
  next
    case 2
    have "fl x \<le> 0"
      using fl_nonneg [of "- x"] 2(1) by (simp add: fl_minus)
    moreover have "0 \<le> fl y"
      using 2(2) by (rule fl_nonneg)
    ultimately show ?thesis
      by linarith
  next
    case 3
    have "fl (- y) \<le> fl (- x)"
      using 3 assms by (intro fl_mono_pos) simp_all
    then show ?thesis
      by (simp add: fl_minus)
  qed
qed


lemma f_add_mono: "a \<le> a' \<Longrightarrow> b \<le> b' \<Longrightarrow> f_add a b \<le> f_add a' b'"
  unfolding f_add_def by (rule fl_mono) simp






lemma share_mono:
  assumes "x \<le> y" and "0 < n" and "0 \<le> K"
  shows "min K (f_mul (f_div x n) K) \<le> min K (f_mul (f_div y n) K)"
proof -
  have "f_div x n \<le> f_div y n"
    unfolding f_div_def using assms by (intro fl_mono divide_right_mono) simp_all
  then have "f_mul (f_div x n) K \<le> f_mul (f_div y n) K"
    unfolding f_mul_def using assms by (intro fl_mono mult_right_mono)
  then show ?thesis
    by (simp add: min_le_iff_disj)
qed


subsection \<open>The all-zero input\<close>

lemma zero_steps:
  "f_mul (1 / 2) 25 = 25 / 2" "f_add 0 (25 / 2) = 25 / 2"
  "f_mul 1 40 = 40" "f_sub 40 40 = 0" "f_sub 0 5 = - 5" "f_mul 5 5 = 25" "f_sub 30 25 = 5"
  "f_add 0 5 = 5" "f_add 5 0 = 5"
  by code_simp+

lemma f_zero [simp]:
  "f_add 0 0 = 0" "f_mul 0 x = 0" "f_div 0 x = 0"
  by (simp_all add: f_add_def f_mul_def f_div_def)

lemma engagement_zero: "fst (calculateEngagementScore zeroData) = 13"
  by (simp add: calculateEngagementScore_def zeroData_def Math_round_def Let_def zero_steps)

lemma consistency_zero: "fst (calculateConsistencyScore zeroData) = 5"
  by (simp add: calculateConsistencyScore_def zeroData_def Math_round_def Let_def zero_steps)

lemma trend_zero: "fst (calculateTrendScore zeroData) = 0"
  by (simp add: calculateTrendScore_def zeroData_def Math_round_def Let_def)

lemma community_zero: "fst (calculateCommunityScore zeroData) = 0"
  by (simp add: calculateCommunityScore_def zeroData_def Math_round_def Let_def)

lemma overall_zero: "calculateOverallScore 13 5 0 0 = 6"
  by code_simp

text \<open>
  C1, as stated, fails: on the all-zero input the scores are not all zero. With no reply
  received the reply ratio defaults to \<open>0.5\<close>, worth 12.5 points that round to 13, and
  zero posts are 5 away from the ideal of 5 posts a week, which still leaves
  \<open>30 - 5 * 5 = 5\<close> frequency points.
\<close>

theorem C1_zero_scores_counterexample:
  "\<not> (overallScore
        (score (calculatePlatformScore 0 epoch_day no_random Threads zeroData)) = 0
      \<and> engagementScore
        (score (calculatePlatformScore 0 epoch_day no_random Threads zeroData)) = 0
      \<and> consistencyScore
        (score (calculatePlatformScore 0 epoch_day no_random Threads zeroData)) = 0
      \<and> trendScore
        (score (calculatePlatformScore 0 epoch_day no_random Threads zeroData)) = 0
      \<and> communityScore
        (score (calculatePlatformScore 0 epoch_day no_random Threads zeroData)) = 0)"
  by (simp add: calculatePlatformScore_def Let_def engagement_zero)

text \<open>
  C1, amended: for the behaviour data whose counters are all zero and whose
  \<open>postTimings\<close> is empty, on every platform and at every time,
  \<open>calculatePlatformScore\<close> returns engagementScore 13, consistencyScore 5,
  trendScore 0, communityScore 0 and overallScore \<open>round(0.35 * 13 + 0.25 * 5) = 6\<close>.
\<close>

theorem C1_zero_scores:
  "(let s = score (calculatePlatformScore now today rnd p zeroData)
    in engagementScore s = 13 \<and> consistencyScore s = 5 \<and> trendScore s = 0
       \<and> communityScore s = 0 \<and> overallScore s = 6)"
  by (simp add: calculatePlatformScore_def Let_def engagement_zero consistency_zero
      trend_zero community_zero overall_zero)

subsection \<open>Ranges of the sub-scores\<close>






lemma platform_score_fields:
  "engagementScore (score (calculatePlatformScore now today rnd p d))
     = fst (calculateEngagementScore d)"
  "consistencyScore (score (calculatePlatformScore now today rnd p d))
     = fst (calculateConsistencyScore d)"
  "trendScore (score (calculatePlatformScore now today rnd p d))
     = fst (calculateTrendScore d)"
  "communityScore (score (calculatePlatformScore now today rnd p d))
     = fst (calculateCommunityScore d)"
  "overallScore (score (calculatePlatformScore now today rnd p d))
     = calculateOverallScore (fst (calculateEngagementScore d))
         (fst (calculateConsistencyScore d)) (fst (calculateTrendScore d))
         (fst (calculateCommunityScore d))"
  by (simp_all add: calculatePlatformScore_def Let_def)




lemma sample_overall: "calculateOverallScore 65 80 59 60 = 67"
  by code_simp

subsection \<open>The overall score and the exact weighted sum\<close>

lemma pow2_nonzero [simp]: "pow2 k \<noteq> 0"
  by (simp add: pow2_def)












subsection \<open>Monotonicity in the comments given\<close>

text \<open>
  C8: with every other engagement input held fixed, the engagement sub-score does not
  decrease when \<open>commentsGiven\<close> grows from \<open>c1\<close> to \<open>c2\<close>; the same holds for the
  \<open>engagementScore\<close> field of the platform score. No sign condition is needed.
\<close>

theorem C8_engagement_monotone_in_comments:
  assumes "c1 \<le> c2"
  shows "fst (calculateEngagementScore (d\<lparr>commentsGiven := c1\<rparr>))
           \<le> fst (calculateEngagementScore (d\<lparr>commentsGiven := c2\<rparr>))
       \<and> engagementScore (score (calculatePlatformScore now today rnd p
                                   (d\<lparr>commentsGiven := c1\<rparr>)))
           \<le> engagementScore (score (calculatePlatformScore now today rnd p
                                       (d\<lparr>commentsGiven := c2\<rparr>)))"
proof -
  let ?l = "min 25 (f_mul (f_div (likesGiven d) 50) 25)"
  let ?s = "min 20 (f_mul (f_div (sharesGiven d) 10) 20)"
  let ?c = "\<lambda>c::real. min 30 (f_mul (f_div c 20) 30)"
  let ?q = "\<lambda>c. (if repliesReceived d > 0 then min 1 (f_div c (repliesReceived d))
                 else 1 / 2)"
  let ?r = "\<lambda>c. f_mul (?q c) 25"
  let ?t = "\<lambda>c. f_add (f_add (f_add (f_add 0 ?l) (?c c)) ?s) (?r c)"
  have c: "?c c1 \<le> ?c c2"
    using assms by (intro share_mono) simp_all
  have "f_div c1 (repliesReceived d) \<le> f_div c2 (repliesReceived d)"
    if "repliesReceived d > 0"
    unfolding f_div_def using assms that by (intro fl_mono divide_right_mono) simp_all
  then have q: "?q c1 \<le> ?q c2"
    by (simp add: min_le_iff_disj)
  have r: "?r c1 \<le> ?r c2"
    unfolding f_mul_def using q by (intro fl_mono mult_right_mono) simp_all
  have eq: "fst (calculateEngagementScore (d\<lparr>commentsGiven := c\<rparr>)) = Math_round (?t c)"
    for c
    by (simp add: calculateEngagementScore_def Let_def)
  have "?t c1 \<le> ?t c2"
    using c r by (intro f_add_mono) simp_all
  then have "fst (calculateEngagementScore (d\<lparr>commentsGiven := c1\<rparr>))
           \<le> fst (calculateEngagementScore (d\<lparr>commentsGiven := c2\<rparr>))"
    unfolding eq by (rule Math_round_mono)
  then show ?thesis
    by (simp add: platform_score_fields)
qed

theorem C8_engagement_monotone_in_comments_witness:
  "(3::real) \<le> 10
   \<and> fst (calculateEngagementScore (sampleData\<lparr>commentsGiven := 3\<rparr>)) = 37
   \<and> fst (calculateEngagementScore (sampleData\<lparr>commentsGiven := 10\<rparr>)) = 59
   \<and> fst (calculateEngagementScore (sampleData\<lparr>commentsGiven := 3\<rparr>))
       \<le> fst (calculateEngagementScore (sampleData\<lparr>commentsGiven := 10\<rparr>))"
proof -
  have h: "(3::real) \<le> 10" by simp
  have steps: "f_mul (f_div 40 50) 25 = 20" "f_mul (f_div 4 10) 20 = 8" "f_add 0 20 = 20"
    "f_mul (f_div 3 20) 30 = 9 / 2" "f_div 3 16 = 3 / 16" "f_mul (3 / 16) 25 = 75 / 16"
    "f_add 20 (9 / 2) = 49 / 2" "f_add (49 / 2) 8 = 65 / 2"
    "f_add (65 / 2) (75 / 16) = 595 / 16"
    "f_mul (f_div 10 20) 30 = 15" "f_div 10 16 = 5 / 8" "f_mul (5 / 8) 25 = 125 / 8"
    "f_add 20 15 = 35" "f_add 35 8 = 43" "f_add 43 (125 / 8) = 469 / 8"
    by code_simp+
  have a: "fst (calculateEngagementScore (sampleData\<lparr>commentsGiven := 3\<rparr>)) = 37"
    by (simp add: calculateEngagementScore_def sampleData_def Math_round_def Let_def steps)
  have b: "fst (calculateEngagementScore (sampleData\<lparr>commentsGiven := 10\<rparr>)) = 59"
    by (simp add: calculateEngagementScore_def sampleData_def Math_round_def Let_def steps)
  show ?thesis
    using h a b C8_engagement_monotone_in_comments [OF h, of sampleData 0 epoch_day no_random Threads] by blast
qed

section \<open>Properties of the strategy manager\<close>

subsection \<open>Ratio health\<close>

text \<open>
  C4: \<open>isRatioHealthy\<close> has no failing branch, and for every real impression ratio \<open>r\<close>
  its status is \<open>healthy\<close> when \<open>0.80 \<le> r \<le> 0.95\<close>, \<open>warning\<close> when \<open>r > 0.95\<close>,
  \<open>critical\<close> when \<open>r < 0.70\<close>, and \<open>acceptable\<close> in every other case, which is exactly
  \<open>0.70 \<le> r < 0.80\<close>.
\<close>

theorem C4_ratio_health_by_precedence:
  "(0.8 \<le> r \<and> r \<le> 0.95 \<longrightarrow> status (isRatioHealthy (s\<lparr>impressionRatio := Num r\<rparr>)) = Healthy)
   \<and> (r > 0.95 \<longrightarrow> status (isRatioHealthy (s\<lparr>impressionRatio := Num r\<rparr>)) = Warning)
   \<and> (r < 0.7 \<longrightarrow> status (isRatioHealthy (s\<lparr>impressionRatio := Num r\<rparr>)) = Critical)
   \<and> (0.7 \<le> r \<and> r < 0.8 \<longrightarrow> status (isRatioHealthy (s\<lparr>impressionRatio := Num r\<rparr>)) = Acceptable)
   \<and> (\<not> (0.8 \<le> r \<and> r \<le> 0.95) \<and> \<not> r > 0.95 \<and> \<not> r < 0.7
        \<longrightarrow> status (isRatioHealthy (s\<lparr>impressionRatio := Num r\<rparr>)) = Acceptable)"
  by (auto simp add: isRatioHealthy_def js_ge_def js_le_def js_gt_def js_lt_def Let_def)

theorem C4_ratio_health_by_precedence_witness:
  "status (isRatioHealthy (DEFAULT_STRATEGY\<lparr>impressionRatio := Num 0.8\<rparr>)) = Healthy
   \<and> status (isRatioHealthy (DEFAULT_STRATEGY\<lparr>impressionRatio := Num 0.95\<rparr>)) = Healthy
   \<and> status (isRatioHealthy (DEFAULT_STRATEGY\<lparr>impressionRatio := Num 0.99\<rparr>)) = Warning
   \<and> status (isRatioHealthy (DEFAULT_STRATEGY\<lparr>impressionRatio := Num 0.5\<rparr>)) = Critical
   \<and> status (isRatioHealthy (DEFAULT_STRATEGY\<lparr>impressionRatio := Num 0.7\<rparr>)) = Acceptable
   \<and> status (isRatioHealthy (DEFAULT_STRATEGY\<lparr>impressionRatio := Num 0.75\<rparr>)) = Acceptable"
  using C4_ratio_health_by_precedence [of "0.8" DEFAULT_STRATEGY]
    C4_ratio_health_by_precedence [of "0.95" DEFAULT_STRATEGY]
    C4_ratio_health_by_precedence [of "0.99" DEFAULT_STRATEGY]
    C4_ratio_health_by_precedence [of "0.5" DEFAULT_STRATEGY]
    C4_ratio_health_by_precedence [of "0.7" DEFAULT_STRATEGY]
    C4_ratio_health_by_precedence [of "0.75" DEFAULT_STRATEGY]
  by simp

text \<open>Outside the reals, the same chain of comparisons gives:\<close>

lemma ratio_health_non_finite:
  "status (isRatioHealthy (s\<lparr>impressionRatio := NaN\<rparr>)) = Acceptable"
  "status (isRatioHealthy (s\<lparr>impressionRatio := PosInf\<rparr>)) = Warning"
  "status (isRatioHealthy (s\<lparr>impressionRatio := NegInf\<rparr>)) = Critical"
  "status (isRatioHealthy (s\<lparr>impressionRatio := Null\<rparr>)) = Critical"
  by (simp_all add: isRatioHealthy_def js_ge_def js_le_def js_gt_def js_lt_def Let_def)

subsection \<open>Post classification\<close>

lemma starts_with_iff: "starts_with cs ks \<longleftrightarrow> (\<exists>s. cs = ks @ s)"
  by (induction cs ks rule: starts_with.induct) auto

lemma str_includes_iff: "str_includes cs kw \<longleftrightarrow> (\<exists>p s. cs = p @ kw @ s)"
proof (induction cs)
  case Nil
  then show ?case by auto
next
  case (Cons c cs)
  show ?case
  proof
    assume "str_includes (c # cs) kw"
    then consider "starts_with (c # cs) kw" | "str_includes cs kw"
      by auto
    then show "\<exists>p s. c # cs = p @ kw @ s"
    proof cases
      case 1
      then obtain s where "c # cs = kw @ s"
        using starts_with_iff by blast
      then have "c # cs = [] @ kw @ s"
        by simp
      then show ?thesis by blast
    next
      case 2
      then obtain p s where "cs = p @ kw @ s"
        using Cons.IH by blast
      then have "c # cs = (c # p) @ kw @ s"
        by simp
      then show ?thesis by blast
    qed
  next
    assume "\<exists>p s. c # cs = p @ kw @ s"
    then obtain p s where ps: "c # cs = p @ kw @ s"
      by blast
    show "str_includes (c # cs) kw"
    proof (cases p)
      case Nil
      with ps have "starts_with (c # cs) kw"
        using starts_with_iff by fastforce
      then show ?thesis by simp
    next
      case (Cons a p')
      with ps have "cs = p' @ kw @ s"
        by simp
      then have "str_includes cs kw"
        using Cons.IH by blast
      then show ?thesis by simp
    qed
  qed
qed

lemma distinct_impressionKeywords: "distinct impressionKeywords"
  by (simp add: impressionKeywords_def)

lemma distinct_expressionKeywords: "distinct expressionKeywords"
  by (simp add: expressionKeywords_def)

lemma keyword_count_eq_card:
  assumes "distinct kws"
  shows "length (filter (\<lambda>kw. str_includes c kw) kws)
         = card {kw \<in> set kws. \<exists>p s. c = p @ kw @ s}"
proof -
  have "{kw \<in> set kws. \<exists>p s. c = p @ kw @ s} = {kw. str_includes c kw} \<inter> set kws"
    by (auto simp: str_includes_iff)
  then show ?thesis
    using assms by (simp add: distinct_length_filter)
qed

lemma classify_three_impression:
  "classifyPost three_impression_text
   = \<lparr>suggestedMode = Impression, confidence = 0.6, expressionScore = 0, impressionScore = 3\<rparr>"
  by (simp add: classifyPost_def three_impression_text_def impressionKeywords_def
      expressionKeywords_def Let_def)

lemma classify_six_impression:
  "classifyPost six_impression_text
   = \<lparr>suggestedMode = Impression, confidence = 1.2, expressionScore = 0, impressionScore = 6\<rparr>"
  by (simp add: classifyPost_def six_impression_text_def impressionKeywords_def
      expressionKeywords_def Let_def)

text \<open>
  C5: for every text, \<open>impressionScore\<close> and \<open>expressionScore\<close> are the numbers of
  keywords of the respective list that occur in the text as substrings; the suggested
  mode is \<open>impression\<close> exactly when \<open>impressionScore \<ge> expressionScore\<close>; the confidence
  is \<open>|impressionScore - expressionScore| / 5\<close>, not clamped: it is \<open>1.2\<close> on a text with
  six impression keywords. The text of the spec's example (three impression keywords
  separated by spaces) is classified as \<open>impression\<close> with scores 3 and 0 and
  confidence \<open>0.6\<close>.
\<close>

theorem C5_classifyPost_counts_keywords:
  "impressionScore (classifyPost c)
     = card {kw \<in> set impressionKeywords. \<exists>p s. c = p @ kw @ s}
   \<and> expressionScore (classifyPost c)
     = card {kw \<in> set expressionKeywords. \<exists>p s. c = p @ kw @ s}
   \<and> (suggestedMode (classifyPost c) = Impression
        \<longleftrightarrow> impressionScore (classifyPost c) \<ge> expressionScore (classifyPost c))
   \<and> (suggestedMode (classifyPost c) = Expression
        \<longleftrightarrow> impressionScore (classifyPost c) < expressionScore (classifyPost c))
   \<and> confidence (classifyPost c)
     = \<bar>real (impressionScore (classifyPost c)) - real (expressionScore (classifyPost c))\<bar> / 5
   \<and> classifyPost three_impression_text
     = \<lparr>suggestedMode = Impression, confidence = 0.6, expressionScore = 0, impressionScore = 3\<rparr>
   \<and> confidence (classifyPost six_impression_text) > 1"
proof -
  have i: "impressionScore (classifyPost c)
             = card {kw \<in> set impressionKeywords. \<exists>p s. c = p @ kw @ s}"
    using keyword_count_eq_card [OF distinct_impressionKeywords, of c]
    by (simp add: classifyPost_def Let_def)
  have e: "expressionScore (classifyPost c)
             = card {kw \<in> set expressionKeywords. \<exists>p s. c = p @ kw @ s}"
    using keyword_count_eq_card [OF distinct_expressionKeywords, of c]
    by (simp add: classifyPost_def Let_def)
  have m: "suggestedMode (classifyPost c) = Impression
             \<longleftrightarrow> impressionScore (classifyPost c) \<ge> expressionScore (classifyPost c)"
    by (simp add: classifyPost_def Let_def)
  have m': "suggestedMode (classifyPost c) = Expression
             \<longleftrightarrow> impressionScore (classifyPost c) < expressionScore (classifyPost c)"
    by (auto simp add: classifyPost_def Let_def)
  have k: "confidence (classifyPost c)
             = \<bar>real (impressionScore (classifyPost c))
                - real (expressionScore (classifyPost c))\<bar> / 5"
    by (simp add: classifyPost_def Let_def)
  have x: "confidence (classifyPost six_impression_text) > 1"
    by (simp add: classify_six_impression)
  show ?thesis
    using i e m m' k x classify_three_impression by blast
qed

subsection \<open>The weekly schedule\<close>

lemma schedule_nth:
  "i < 7 \<Longrightarrow> generateWeeklySchedule s d ! i = scheduleItem s d i"
  by (simp add: generateWeeklySchedule_def)

text \<open>
  C6: for every start date and every list of expression days, the schedule has exactly
  seven entries; entry \<open>i\<close> is dated \<open>i\<close> calendar days after the start date, so the first
  is on the start date and each next one is one calendar day after the previous; each
  entry is an expression day exactly when its day of the week is in the list,
  recommends \<open>expression\<close> exactly then (and \<open>impression\<close> otherwise), and recommends
  what \<open>getRecommendedMode\<close> returns for the entry's date under the same strategy.
\<close>

theorem C6_weekly_schedule:
  "length (generateWeeklySchedule s d) = 7
   \<and> item_date (generateWeeklySchedule s d ! 0) = d
   \<and> (\<forall>i<7. item_date (generateWeeklySchedule s d ! i) = addDays d (int i))
   \<and> (\<forall>i<6. dayNumber (item_date (generateWeeklySchedule s d ! Suc i))
                = dayNumber (item_date (generateWeeklySchedule s d ! i)) + 1)
   \<and> (\<forall>e \<in> set (generateWeeklySchedule s d).
          dayOfWeek e = getDay (item_date e)
        \<and> (isExpressionDay e \<longleftrightarrow> getDay (item_date e) \<in> set (weeklyExpressionDays s))
        \<and> (recommendedMode e = Expression \<longleftrightarrow> isExpressionDay e)
        \<and> (recommendedMode e = Impression \<longleftrightarrow> \<not> isExpressionDay e)
        \<and> recommendedMode e = getRecommendedMode s (item_date e))"
  by (auto simp: generateWeeklySchedule_def scheduleItem_def getRecommendedMode_def Let_def
      addDays_def)

lemma sunday_schedule_modes:
  "map isExpressionDay (generateWeeklySchedule DEFAULT_STRATEGY sunday_2024_01_07)
     = [True, False, False, False, False, False, True]"
  "map (\<lambda>e. dayNumber (item_date e)) (generateWeeklySchedule DEFAULT_STRATEGY sunday_2024_01_07)
     = [19729, 19730, 19731, 19732, 19733, 19734, 19735]"
  by (simp_all add: generateWeeklySchedule_def scheduleItem_def Let_def addDays_def getDay_def
      DEFAULT_STRATEGY_def sunday_2024_01_07_def upt_rec [of _ 7])

theorem C6_weekly_schedule_witness:
  "(0::nat) < 7 \<and> (5::nat) < 6
   \<and> generateWeeklySchedule DEFAULT_STRATEGY sunday_2024_01_07 ! 0
       \<in> set (generateWeeklySchedule DEFAULT_STRATEGY sunday_2024_01_07)
   \<and> length (generateWeeklySchedule DEFAULT_STRATEGY sunday_2024_01_07) = 7
   \<and> item_date (generateWeeklySchedule DEFAULT_STRATEGY sunday_2024_01_07 ! 0)
       = addDays sunday_2024_01_07 (int 0)
   \<and> dayNumber (item_date (generateWeeklySchedule DEFAULT_STRATEGY sunday_2024_01_07 ! Suc 5))
       = dayNumber (item_date (generateWeeklySchedule DEFAULT_STRATEGY sunday_2024_01_07 ! 5)) + 1
   \<and> recommendedMode (generateWeeklySchedule DEFAULT_STRATEGY sunday_2024_01_07 ! 0)
       = getRecommendedMode DEFAULT_STRATEGY
           (item_date (generateWeeklySchedule DEFAULT_STRATEGY sunday_2024_01_07 ! 0))
   \<and> (recommendedMode (generateWeeklySchedule DEFAULT_STRATEGY sunday_2024_01_07 ! 0) = Expression
        \<longleftrightarrow> isExpressionDay (generateWeeklySchedule DEFAULT_STRATEGY sunday_2024_01_07 ! 0))"
proof -
  let ?w = "generateWeeklySchedule DEFAULT_STRATEGY sunday_2024_01_07"
  have len: "length ?w = 7"
    using C6_weekly_schedule [of DEFAULT_STRATEGY sunday_2024_01_07] by blast
  then have mem: "?w ! 0 \<in> set ?w"
    by simp
  have h: "(0::nat) < 7" "(5::nat) < 6"
    by simp_all
  show ?thesis
    using h mem C6_weekly_schedule [of DEFAULT_STRATEGY sunday_2024_01_07] by blast
qed

subsection \<open>Normalisation of the ratios\<close>

text \<open>
  C7 says that after construction and after \<open>importStrategy\<close> the two ratios sum to 1,
  that \<open>setImpressionRatio\<close> clamps into \<open>[0.5, 1]\<close> and sets the other ratio to the
  complement, and that importing an exported strategy gives ratios that sum to 1. The code
  does not keep the first and the last of these. \<open>normalizeRatios\<close>, documented as making the
  ratios sum to 1, divides by their sum without looking at it: built from (or importing)
  the two ratios \<open>0\<close> and \<open>0\<close>, the manager stores \<open>0 / 0 = NaN\<close> twice, and \<open>NaN + NaN\<close> is
  \<open>NaN\<close>, not 1 within any tolerance. Exporting that strategy writes \<open>null\<close> twice, and
  importing the text back gives \<open>NaN\<close> again.
\<close>

theorem C7_zero_total_gives_NaN:
  "impressionRatio (StrategyManager_new (Some zeroRatios)) = NaN
   \<and> expressionRatio (StrategyManager_new (Some zeroRatios)) = NaN
   \<and> js_add (impressionRatio (StrategyManager_new (Some zeroRatios)))
        (expressionRatio (StrategyManager_new (Some zeroRatios))) = NaN
   \<and> importStrategy (Some zeroRatios)
       = Inr (DEFAULT_STRATEGY\<lparr>impressionRatio := NaN, expressionRatio := NaN\<rparr>)
   \<and> importStrategy (Some (exportStrategy (StrategyManager_new (Some zeroRatios))))
       = Inr (DEFAULT_STRATEGY\<lparr>impressionRatio := NaN, expressionRatio := NaN\<rparr>)"
  by (simp add: StrategyManager_new_def importStrategy_def exportStrategy_def zeroRatios_def
      merge_defaults_def normalizeRatios_def js_add_def js_div_def Let_def DEFAULT_STRATEGY_def)

text \<open>What does hold of the ratios: the three parts of C7 away from a zero sum.\<close>

lemma normalizeRatios_sum:
  assumes "impressionRatio s = Num i" and "expressionRatio s = Num e" and "i + e \<noteq> 0"
  shows "js_add (impressionRatio (normalizeRatios s)) (expressionRatio (normalizeRatios s)) = Num 1"
proof (cases "i + e = 1")
  case True
  then show ?thesis
    using assms by (simp add: normalizeRatios_def js_add_def Let_def)
next
  case False
  have "i / (i + e) + e / (i + e) = 1"
    using assms(3) by (simp add: add_divide_distrib [symmetric])
  then show ?thesis
    using assms False by (simp add: normalizeRatios_def js_add_def js_div_def Let_def)
qed

lemma construction_sums_to_one:
  assumes "impressionRatio (merge_defaults p) = Num i"
    and "expressionRatio (merge_defaults p) = Num e" and "i + e \<noteq> 0"
  shows "js_add (impressionRatio (StrategyManager_new (Some p)))
           (expressionRatio (StrategyManager_new (Some p))) = Num 1"
  using normalizeRatios_sum [OF assms] by (simp add: StrategyManager_new_def)

lemma import_sums_to_one:
  assumes "impressionRatio (merge_defaults p) = Num i"
    and "expressionRatio (merge_defaults p) = Num e" and "i + e \<noteq> 0"
  shows "\<exists>s. importStrategy (Some p) = Inr s
             \<and> js_add (impressionRatio s) (expressionRatio s) = Num 1"
  using normalizeRatios_sum [OF assms] by (simp add: importStrategy_def)

text \<open>The ratios \<open>0.6\<close> and \<open>0.6\<close> of the test suite become \<open>0.5\<close> and \<open>0.5\<close>.\<close>

lemma construction_example:
  "StrategyManager_new (Some \<lparr>impressionRatio_opt = Some (Num 0.6),
       expressionRatio_opt = Some (Num 0.6), weeklyExpressionDays_opt = None,
       commentStrategy_opt = None\<rparr>)
   = DEFAULT_STRATEGY\<lparr>impressionRatio := Num 0.5, expressionRatio := Num 0.5\<rparr>"
  by (simp add: StrategyManager_new_def merge_defaults_def normalizeRatios_def js_add_def
      js_div_def Let_def DEFAULT_STRATEGY_def)

lemma StrategyManager_new_default: "StrategyManager_new None = DEFAULT_STRATEGY"
  by (simp add: StrategyManager_new_def normalizeRatios_def DEFAULT_STRATEGY_def js_add_def
      Let_def)

lemma setImpressionRatio_clamps:
  "impressionRatio (setImpressionRatio r s) = Num (max 0.5 (min 1 r))
   \<and> 0.5 \<le> max 0.5 (min 1 r) \<and> max 0.5 (min 1 r) \<le> 1
   \<and> expressionRatio (setImpressionRatio r s) = Num (1 - max 0.5 (min 1 r))
   \<and> js_add (impressionRatio (setImpressionRatio r s)) (expressionRatio (setImpressionRatio r s))
       = Num 1"
  by (simp add: setImpressionRatio_def js_add_def Let_def)

lemma import_export_identity:
  assumes "impressionRatio s = Num i" and "expressionRatio s = Num e" and "i + e = 1"
  shows "importStrategy (Some (exportStrategy s)) = Inr s"
  using assms
  by (simp add: importStrategy_def exportStrategy_def merge_defaults_def normalizeRatios_def
      js_add_def Let_def)

section \<open>Properties of the trend detector\<close>

subsection \<open>The cache key\<close>

lemma digits_lt10: "n < 10 \<Longrightarrow> digits n = [digit_char n]"
  by (subst digits.simps) simp

lemma digits_ge10: "\<not> n < 10 \<Longrightarrow> digits n = digits (n div 10) @ [digit_char (n mod 10)]"
  by (subst digits.simps) simp

lemma digit_char_not_minus: "d < 10 \<Longrightarrow> digit_char d \<noteq> CHR ''-''"
proof -
  assume "d < 10"
  then have "digit_char d \<in> set ''0123456789''"
    unfolding digit_char_def by (intro nth_mem) simp
  then show ?thesis by auto
qed

lemma digit_char_inj: "d < 10 \<Longrightarrow> d' < 10 \<Longrightarrow> digit_char d = digit_char d' \<Longrightarrow> d = d'"
proof -
  assume a: "d < 10" "d' < 10" "digit_char d = digit_char d'"
  have "distinct ''0123456789''"
    by simp
  moreover have "d < length ''0123456789''" "d' < length ''0123456789''"
    using a by simp_all
  ultimately show ?thesis
    using a(3) unfolding digit_char_def by (simp only: nth_eq_iff_index_eq)
qed

lemma digits_nonempty: "digits n \<noteq> []"
  by (cases "n < 10") (simp_all add: digits_lt10 digits_ge10)

lemma digits_no_minus: "CHR ''-'' \<notin> set (digits n)"
proof (induction n rule: digits.induct)
  case (1 n)
  show ?case
  proof (cases "n < 10")
    case True
    then show ?thesis
      using digit_char_not_minus [of n] by (simp add: digits_lt10)
  next
    case False
    then have "CHR ''-'' \<notin> set (digits (n div 10))"
      using 1 by simp
    moreover have "digit_char (n mod 10) \<noteq> CHR ''-''"
      by (rule digit_char_not_minus) simp
    ultimately show ?thesis
      using False by (simp add: digits_ge10)
  qed
qed

lemma digits_single: "length (digits n) = Suc 0 \<longleftrightarrow> n < 10"
proof (cases "n < 10")
  case True
  then show ?thesis by (simp add: digits_lt10)
next
  case False
  have "0 < length (digits (n div 10))"
    using digits_nonempty [of "n div 10"] by simp
  then show ?thesis
    using False by (simp add: digits_ge10)
qed

lemma digits_inj: "digits n = digits m \<Longrightarrow> n = m"
proof (induction n arbitrary: m rule: digits.induct)
  case (1 n)
  show ?case
  proof (cases "n < 10")
    case True
    then have "length (digits m) = Suc 0"
      using 1(2) digits_single [of n] by simp
    then have m: "m < 10"
      by (simp add: digits_single)
    have "digit_char n = digit_char m"
      using 1(2) True m by (simp add: digits_lt10)
    then show ?thesis
      using True m digit_char_inj by blast
  next
    case False
    then have "length (digits m) \<noteq> Suc 0"
      using 1(2) digits_single [of n] by simp
    then have m: "\<not> m < 10"
      by (simp add: digits_single)
    from 1(2) have "digits (n div 10) @ [digit_char (n mod 10)]
                    = digits (m div 10) @ [digit_char (m mod 10)]"
      using False m by (simp add: digits_ge10)
    then have a: "digits (n div 10) = digits (m div 10)"
      and b: "digit_char (n mod 10) = digit_char (m mod 10)"
      by simp_all
    have "n div 10 = m div 10"
      using 1(1) [OF False a] .
    moreover have "n mod 10 = m mod 10"
      using b by (intro digit_char_inj) simp_all
    ultimately show ?thesis
      by (metis div_mult_mod_eq)
  qed
qed

lemma Number_toString_inj:
  assumes eq: "Number_toString i = Number_toString j"
  shows "i = j"
proof -
  have hd_digits: "hd (digits n) \<noteq> CHR ''-''" for n
    using digits_no_minus digits_nonempty by (metis list.set_sel(1))
  show ?thesis
  proof (cases "i < 0")
    case True
    show ?thesis
    proof (cases "j < 0")
      case T2: True
      with True eq have "digits (nat (- i)) = digits (nat (- j))"
        by (simp add: Number_toString_def)
      then have "nat (- i) = nat (- j)"
        by (rule digits_inj)
      with True T2 show ?thesis by simp
    next
      case F2: False
      with True eq have "CHR ''-'' # digits (nat (- i)) = digits (nat j)"
        by (simp add: Number_toString_def)
      then have "hd (digits (nat j)) = CHR ''-''"
        by (metis list.sel(1))
      with hd_digits show ?thesis by blast
    qed
  next
    case False
    show ?thesis
    proof (cases "j < 0")
      case T2: True
      with False eq have "digits (nat i) = CHR ''-'' # digits (nat (- j))"
        by (simp add: Number_toString_def)
      then have "hd (digits (nat i)) = CHR ''-''"
        by (metis list.sel(1))
      with hd_digits show ?thesis by blast
    next
      case F2: False
      with False eq have "digits (nat i) = digits (nat j)"
        by (simp add: Number_toString_def)
      then have "nat i = nat j"
        by (rule digits_inj)
      with False F2 show ?thesis by simp
    qed
  qed
qed

lemma platform_prefix_inj:
  "platform_str p @ ''-'' @ r = platform_str p' @ ''-'' @ r' \<Longrightarrow> p = p' \<and> r = r'"
  by (cases p; cases p'; simp)

lemma category_prefix_inj:
  "category_str c @ ''-'' @ r = category_str c' @ ''-'' @ r' \<Longrightarrow> c = c' \<and> r = r'"
  by (cases c; cases c'; simp)

lemma category_not_all: "category_str c @ ''-'' @ r \<noteq> ''all'' @ ''-'' @ r'"
  by (cases c; simp)

lemma category_or_all_prefix_inj:
  assumes "(case c of None \<Rightarrow> ''all'' | Some x \<Rightarrow> category_str x) @ ''-'' @ r
           = (case c' of None \<Rightarrow> ''all'' | Some x \<Rightarrow> category_str x) @ ''-'' @ r'"
  shows "c = c' \<and> r = r'"
proof (cases c)
  case None
  show ?thesis
  proof (cases c')
    case N2: None
    with None assms show ?thesis by simp
  next
    case (Some x)
    with None assms category_not_all [of x r' r] show ?thesis by simp
  qed
next
  case (Some x)
  show ?thesis
  proof (cases c')
    case None
    with Some assms category_not_all [of x r r'] show ?thesis by simp
  next
    case S2: (Some y)
    with Some assms category_prefix_inj [of x r y r'] show ?thesis by simp
  qed
qed

text \<open>Two requests share a cache key only if they agree on what the key is built from.\<close>

lemma getCacheKey_inj:
  assumes "getCacheKey r = getCacheKey q"
  shows "req_platform r = req_platform q \<and> req_category r = req_category q
       \<and> limit_or_10 (req_limit r) = limit_or_10 (req_limit q)"
proof -
  let ?c = "\<lambda>x. (case req_category x of None \<Rightarrow> ''all'' | Some c \<Rightarrow> category_str c)"
  let ?n = "\<lambda>x. Number_toString (limit_or_10 (req_limit x))"
  have eq: "platform_str (req_platform r) @ ''-'' @ (?c r @ ''-'' @ ?n r)
            = platform_str (req_platform q) @ ''-'' @ (?c q @ ''-'' @ ?n q)"
    using assms by (simp add: getCacheKey_def)
  from platform_prefix_inj [OF eq]
  have p: "req_platform r = req_platform q" and rest: "?c r @ ''-'' @ ?n r = ?c q @ ''-'' @ ?n q"
    by simp_all
  from category_or_all_prefix_inj [OF rest]
  have c: "req_category r = req_category q" and n: "?n r = ?n q"
    by simp_all
  from Number_toString_inj [OF n] p c show ?thesis
    by simp
qed

lemma getCacheKey_cong:
  assumes "req_platform r = req_platform q" and "req_category r = req_category q"
    and "req_limit r = req_limit q"
  shows "getCacheKey r = getCacheKey q"
  using assms by (simp add: getCacheKey_def)

lemma news_request_key: "getCacheKey news_request = ''threads-news-10''"
  by (simp add: getCacheKey_def news_request_def limit_or_10_def Number_toString_def
      digits_ge10 digits_lt10 digit_char_def)

subsection \<open>The mock topics\<close>

lemma those_all_Some: "(\<forall>x \<in> set xs. x \<noteq> None) \<Longrightarrow> those xs \<noteq> None"
  by (induction xs) auto

lemma mockTopics_hashtags: "t \<in> set (mockTopics now p) \<Longrightarrow> relatedHashtags t \<noteq> None"
  by (cases p) auto

lemma mockTopics_platform: "t \<in> set (mockTopics now p) \<Longrightarrow> topic_platform t = p"
  by (cases p) auto

lemma mockTopics_length: "length (mockTopics now p) \<le> 5"
  by (cases p) simp_all

lemma set_slice0: "set (slice0 xs n) \<subseteq> set xs"
  by (simp add: slice0_def set_take_subset)

lemma getMock_subset: "set (getMockTrendingTopics now p c n) \<subseteq> set (mockTopics now p)"
proof (cases c)
  case None
  then show ?thesis
    using set_slice0 [of "mockTopics now p" n] by (simp add: getMockTrendingTopics_def Let_def)
next
  case (Some x)
  have "set (slice0 (filter (\<lambda>t. topic_category t = x) (mockTopics now p)) n)
        \<subseteq> set (filter (\<lambda>t. topic_category t = x) (mockTopics now p))"
    by (rule set_slice0)
  then show ?thesis
    using Some by (auto simp add: getMockTrendingTopics_def Let_def)
qed

lemma getMock_platform: "t \<in> set (getMockTrendingTopics now p c n) \<Longrightarrow> topic_platform t = p"
  using getMock_subset [of now p c n] mockTopics_platform [of t now p] by blast

lemma getMock_category:
  assumes "t \<in> set (getMockTrendingTopics now p (Some x) n)"
  shows "topic_category t = x"
proof -
  have "t \<in> set (filter (\<lambda>t. topic_category t = x) (mockTopics now p))"
    using assms set_slice0 [of "filter (\<lambda>t. topic_category t = x) (mockTopics now p)" n]
    by (auto simp add: getMockTrendingTopics_def Let_def)
  then show ?thesis by simp
qed

lemma getMock_length:
  assumes l: "0 \<le> n"
  shows "int (length (getMockTrendingTopics now p c n)) \<le> min n 5"
proof -
  let ?ts = "case c of None \<Rightarrow> mockTopics now p
             | Some x \<Rightarrow> filter (\<lambda>t. topic_category t = x) (mockTopics now p)"
  have "length ?ts \<le> length (mockTopics now p)"
    by (cases c) simp_all
  then have five: "length ?ts \<le> 5"
    using mockTopics_length [of now p] by linarith
  have "getMockTrendingTopics now p c n = take (nat n) ?ts"
    using l by (simp add: getMockTrendingTopics_def slice0_def Let_def)
  then have "length (getMockTrendingTopics now p c n) = min (length ?ts) (nat n)"
    by simp
  then show ?thesis
    using five l by linarith
qed

lemma getMock_length_five: "length (getMockTrendingTopics now p c n) \<le> 5"
proof -
  let ?ts = "case c of None \<Rightarrow> mockTopics now p
             | Some x \<Rightarrow> filter (\<lambda>t. topic_category t = x) (mockTopics now p)"
  have "length ?ts \<le> length (mockTopics now p)"
    by (cases c) simp_all
  then have "length ?ts \<le> 5"
    using mockTopics_length [of now p] by linarith
  moreover have "length (getMockTrendingTopics now p c n) \<le> length ?ts"
    by (simp add: getMockTrendingTopics_def slice0_def Let_def)
  ultimately show ?thesis
    by linarith
qed

lemma getMock_zero: "getMockTrendingTopics now p c 0 = []"
  by (simp add: getMockTrendingTopics_def slice0_def Let_def)

lemma getMock_threads_news: "getMockTrendingTopics now Threads (Some News) n = []"
  by (simp add: getMockTrendingTopics_def slice0_def Let_def)

lemma analyzeHashtags_mock:
  "\<exists>hs. analyzeHashtags rnd q (getMockTrendingTopics now p c n) = Inr hs"
proof -
  have "\<forall>x \<in> set (map relatedHashtags (getMockTrendingTopics now p c n)). x \<noteq> None"
    using getMock_subset [of now p c n] mockTopics_hashtags [of _ now p] by auto
  then have "those (map relatedHashtags (getMockTrendingTopics now p c n)) \<noteq> None"
    by (rule those_all_Some)
  then show ?thesis
    by (auto simp: analyzeHashtags_def)
qed

subsection \<open>The three ways through \<open>detectTrends\<close>\<close>

lemma detectTrends_hit:
  "cache_hit st req env = Some d \<Longrightarrow> detectTrends P st req env = (Inr d, st)"
  by (simp add: detectTrends_def cache_hit_def Let_def)

lemma detectTrends_miss_ok:
  assumes miss: "cache_hit st req env = None"
    and gen: "generateTrendingTopics P (client st) (llm env) (buildTime env) (req_platform req)
                (req_category req) (requested_limit req) = ts"
    and tags: "(if includeHashtags req \<noteq> Some False
                then analyzeHashtags (random env) (req_platform req) ts else Inr []) = Inr hs"
  shows "detectTrends P st req env =
           (Inr (built_response req env ts hs),
            st\<lparr>generationCalls := generationCalls st + 1,
               cachedTrends := (cachedTrends st)(getCacheKey req \<mapsto>
                                 (built_response req env ts hs, buildTime env))\<rparr>)"
  using miss gen tags
  unfolding detectTrends_def cache_hit_def requested_limit_def built_response_def Let_def
  by (simp split: option.splits prod.splits if_splits)

lemma detectTrends_miss_error:
  assumes miss: "cache_hit st req env = None"
    and gen: "generateTrendingTopics P (client st) (llm env) (buildTime env) (req_platform req)
                (req_category req) (requested_limit req) = ts"
    and tags: "(if includeHashtags req \<noteq> Some False
                then analyzeHashtags (random env) (req_platform req) ts else Inr []) = Inl e"
  shows "detectTrends P st req env = (Inl e, st\<lparr>generationCalls := generationCalls st + 1\<rparr>)"
  using miss gen tags
  unfolding detectTrends_def cache_hit_def requested_limit_def Let_def
  by (simp split: option.splits prod.splits if_splits)

text \<open>A miss whose generation yields the mock topics cannot fail.\<close>

lemma detectTrends_miss_mock:
  assumes miss: "cache_hit st req env = None"
    and gen: "generateTrendingTopics P (client st) (llm env) (buildTime env) (req_platform req)
                (req_category req) (requested_limit req)
              = getMockTrendingTopics (buildTime env) (req_platform req) (req_category req)
                  (requested_limit req)"
  shows "\<exists>hs. detectTrends P st req env =
           (Inr (built_response req env
                   (getMockTrendingTopics (buildTime env) (req_platform req) (req_category req)
                      (requested_limit req)) hs),
            st\<lparr>generationCalls := generationCalls st + 1,
               cachedTrends := (cachedTrends st)(getCacheKey req \<mapsto>
                 (built_response req env
                    (getMockTrendingTopics (buildTime env) (req_platform req) (req_category req)
                       (requested_limit req)) hs,
                  buildTime env))\<rparr>)"
proof -
  let ?ts = "getMockTrendingTopics (buildTime env) (req_platform req) (req_category req)
               (requested_limit req)"
  obtain hs0 where "analyzeHashtags (random env) (req_platform req) ?ts = Inr hs0"
    using analyzeHashtags_mock by blast
  then obtain hs where tags: "(if includeHashtags req \<noteq> Some False
      then analyzeHashtags (random env) (req_platform req) ?ts else Inr []) = Inr hs"
    by (cases "includeHashtags req \<noteq> Some False") simp_all
  show ?thesis
    using detectTrends_miss_ok [OF miss gen tags] by blast
qed

lemma generate_without_client:
  "generateTrendingTopics P False l now p c n = getMockTrendingTopics now p c n"
  by (simp add: generateTrendingTopics_def)


subsection \<open>A fresh cache entry answers the next call\<close>

lemma detectTrends_success_cached:
  assumes "detectTrends P st req env = (Inr resp, st')"
  shows "\<exists>ts. cachedTrends st' (getCacheKey req) = Some (resp, ts)"
proof (cases "cache_hit st req env")
  case (Some d)
  then have "detectTrends P st req env = (Inr d, st)"
    by (rule detectTrends_hit)
  with assms have eq: "resp = d" "st' = st"
    by simp_all
  from Some obtain ts where "cachedTrends st (getCacheKey req) = Some (d, ts)"
    by (auto simp: cache_hit_def split: option.splits if_splits)
  with eq show ?thesis by blast
next
  case None
  let ?ts = "generateTrendingTopics P (client st) (llm env) (buildTime env) (req_platform req)
               (req_category req) (requested_limit req)"
  let ?tags = "if includeHashtags req \<noteq> Some False
               then analyzeHashtags (random env) (req_platform req) ?ts else Inr []"
  show ?thesis
  proof (cases ?tags)
    case (Inl e)
    have "detectTrends P st req env = (Inl e, st\<lparr>generationCalls := generationCalls st + 1\<rparr>)"
      using None refl Inl by (rule detectTrends_miss_error)
    with assms show ?thesis by simp
  next
    case (Inr hs)
    have "detectTrends P st req env =
            (Inr (built_response req env ?ts hs),
             st\<lparr>generationCalls := generationCalls st + 1,
                cachedTrends := (cachedTrends st)(getCacheKey req \<mapsto>
                                  (built_response req env ?ts hs, buildTime env))\<rparr>)"
      using None refl Inr by (rule detectTrends_miss_ok)
    with assms [symmetric] have "(Inr resp, st')
        = (Inr (built_response req env ?ts hs) :: js_error + TrendDetectionResponse,
           st\<lparr>generationCalls := generationCalls st + 1,
              cachedTrends := (cachedTrends st)(getCacheKey req \<mapsto>
                                (built_response req env ?ts hs, buildTime env))\<rparr>)"
      by (rule trans)
    then have r: "resp = built_response req env ?ts hs"
      and s: "st' = st\<lparr>generationCalls := generationCalls st + 1,
                cachedTrends := (cachedTrends st)(getCacheKey req \<mapsto>
                                  (built_response req env ?ts hs, buildTime env))\<rparr>"
      by blast+
    have "cachedTrends (st\<lparr>generationCalls := generationCalls st + 1,
                cachedTrends := (cachedTrends st)(getCacheKey req \<mapsto>
                                  (built_response req env ?ts hs, buildTime env))\<rparr>)
            (getCacheKey req) = Some (built_response req env ?ts hs, buildTime env)"
      by simp
    then have "cachedTrends st' (getCacheKey req) = Some (resp, buildTime env)"
      unfolding r s .
    then show ?thesis by blast
  qed
qed

text \<open>
  C3: the cache key of a request is its platform, its category or \<open>all\<close>, and its limit
  (\<open>10\<close> standing in for an absent limit, and for the limit \<open>0\<close>), joined by hyphens. After
  a call that returned a response, the cache holds that very response under the key;
  a second call with the same platform, category and limit, made while that entry is
  less than 30 minutes old, returns the same response and leaves the detector's state
  as it was, the count of generation calls included. The two calls may differ in
  \<open>includeHashtags\<close> and \<open>includeBuzzPatterns\<close>.
\<close>

theorem C3_fresh_entry_is_returned:
  assumes first: "detectTrends P st0 req1 env1 = (Inr resp1, st1)"
    and same: "req_platform req2 = req_platform req1" "req_category req2 = req_category req1"
      "req_limit req2 = req_limit req1"
  shows "getCacheKey req1
           = platform_str (req_platform req1) @ ''-''
             @ (case req_category req1 of None \<Rightarrow> ''all'' | Some c \<Rightarrow> category_str c) @ ''-''
             @ Number_toString (case req_limit req1 of
                                  None \<Rightarrow> 10 | Some n \<Rightarrow> if n = 0 then 10 else n)
       \<and> getCacheKey req2 = getCacheKey req1
       \<and> (\<exists>ts. cachedTrends st1 (getCacheKey req1) = Some (resp1, ts)
             \<and> (entryTime env2 - ts < 30 * 60 * 1000
                  \<longrightarrow> detectTrends P st1 req2 env2 = (Inr resp1, st1)
                      \<and> generationCalls (snd (detectTrends P st1 req2 env2))
                          = generationCalls st1))"
proof -
  have key: "getCacheKey req2 = getCacheKey req1"
    using same by (rule getCacheKey_cong)
  obtain ts where ts: "cachedTrends st1 (getCacheKey req1) = Some (resp1, ts)"
    using detectTrends_success_cached [OF first] by blast
  have "detectTrends P st1 req2 env2 = (Inr resp1, st1)"
    if "entryTime env2 - ts < 30 * 60 * 1000"
  proof -
    have "cache_hit st1 req2 env2 = Some resp1"
      using ts key that by (simp add: cache_hit_def cacheExpiryMs_def)
    then show ?thesis
      by (rule detectTrends_hit)
  qed
  then have "entryTime env2 - ts < 30 * 60 * 1000
      \<longrightarrow> detectTrends P st1 req2 env2 = (Inr resp1, st1)
          \<and> generationCalls (snd (detectTrends P st1 req2 env2)) = generationCalls st1"
    by simp
  with ts key show ?thesis
    by (auto simp add: getCacheKey_def limit_or_10_def)
qed

lemma first_news_call:
  "\<exists>hs. detectTrends reject_all (TrendDetector_new None) news_request (quiet_env 1000 Throws)
     = (Inr (built_response news_request (quiet_env 1000 Throws) [] hs),
        (TrendDetector_new None)\<lparr>generationCalls := 1,
           cachedTrends := [''threads-news-10'' \<mapsto>
             (built_response news_request (quiet_env 1000 Throws) [] hs, 1000)]\<rparr>)"
proof -
  have miss: "cache_hit (TrendDetector_new None) news_request (quiet_env 1000 Throws) = None"
    by (simp add: cache_hit_def TrendDetector_new_def)
  have nc: "client (TrendDetector_new None) = False"
    by (simp add: TrendDetector_new_def)
  have lim: "requested_limit news_request = 10" "req_platform news_request = Threads"
    "req_category news_request = Some News"
    by (simp_all add: requested_limit_def news_request_def)
  have bt: "buildTime (quiet_env 1000 Throws) = 1000"
    by (simp add: quiet_env_def)
  have gen: "generateTrendingTopics reject_all (client (TrendDetector_new None))
               (llm (quiet_env 1000 Throws)) (buildTime (quiet_env 1000 Throws))
               (req_platform news_request) (req_category news_request)
               (requested_limit news_request)
             = getMockTrendingTopics (buildTime (quiet_env 1000 Throws))
                 (req_platform news_request) (req_category news_request)
                 (requested_limit news_request)"
    unfolding nc by (rule generate_without_client)
  have zero: "generationCalls (TrendDetector_new None) = 0"
    "cachedTrends (TrendDetector_new None) = Map.empty"
    by (simp_all add: TrendDetector_new_def)
  show ?thesis
    using detectTrends_miss_mock [OF miss gen]
    by (simp add: lim bt getMock_threads_news news_request_key zero)
qed

theorem C3_fresh_entry_is_returned_witness:
  "\<exists>resp1 st1.
     detectTrends reject_all (TrendDetector_new None) news_request (quiet_env 1000 Throws)
       = (Inr resp1, st1)
     \<and> req_limit (news_request\<lparr>includeHashtags := Some False\<rparr>) = req_limit news_request
     \<and> cachedTrends st1 (getCacheKey news_request) = Some (resp1, 1000)
     \<and> entryTime (quiet_env 1700000 Throws) - 1000 < (30 * 60 * 1000 :: int)
     \<and> detectTrends reject_all st1 (news_request\<lparr>includeHashtags := Some False\<rparr>)
         (quiet_env 1700000 Throws) = (Inr resp1, st1)"
proof -
  obtain hs where f: "detectTrends reject_all (TrendDetector_new None) news_request
      (quiet_env 1000 Throws)
     = (Inr (built_response news_request (quiet_env 1000 Throws) [] hs),
        (TrendDetector_new None)\<lparr>generationCalls := 1,
           cachedTrends := [''threads-news-10'' \<mapsto>
             (built_response news_request (quiet_env 1000 Throws) [] hs, 1000)]\<rparr>)"
    using first_news_call by blast
  let ?resp = "built_response news_request (quiet_env 1000 Throws) [] hs"
  let ?st = "(TrendDetector_new None)\<lparr>generationCalls := 1,
           cachedTrends := [''threads-news-10'' \<mapsto> (?resp, 1000)]\<rparr>"
  let ?req2 = "news_request\<lparr>includeHashtags := Some False\<rparr>"
  have s: "req_platform ?req2 = req_platform news_request"
    "req_category ?req2 = req_category news_request"
    "req_limit ?req2 = req_limit news_request"
    by simp_all
  have c: "cachedTrends ?st (getCacheKey news_request) = Some (?resp, 1000)"
    by (simp add: news_request_key)
  have age: "entryTime (quiet_env 1700000 Throws) - 1000 < (30 * 60 * 1000 :: int)"
    by (simp add: quiet_env_def)
  have "detectTrends reject_all ?st ?req2 (quiet_env 1700000 Throws) = (Inr ?resp, ?st)"
    using C3_fresh_entry_is_returned [OF f s, of "quiet_env 1700000 Throws"] c age by auto
  with f s c age show ?thesis
    by blast
qed

subsection \<open>Replies without a JSON array\<close>

lemma dropWhile_open_bracket:
  "\<exists>r. dropWhile (\<lambda>c. c \<noteq> (91::nat)) (a @ 91 # b @ 93 # c) = 91 # r \<and> 93 \<in> set r"
  by (induction a) auto

text \<open>
  The pattern fails exactly on the texts in which no \<open>]\<close> comes after a \<open>[\<close>; a match
  starts with \<open>[\<close> and ends with \<open>]\<close>, no \<open>[\<close> stands before it and no \<open>]\<close> after it.
\<close>

lemma jsonMatch_no_open:
  assumes "dropWhile (\<lambda>c. c \<noteq> 91) text = []"
  shows "jsonMatch text = None"
  unfolding jsonMatch_def assms by simp

lemma jsonMatch_open:
  assumes "dropWhile (\<lambda>c. c \<noteq> 91) text = x # rest"
  shows "jsonMatch text
         = (if dropWhile (\<lambda>c. c \<noteq> 93) (rev rest) = [] then None
            else Some (x # rev (dropWhile (\<lambda>c. c \<noteq> 93) (rev rest))))"
  unfolding jsonMatch_def assms by (simp add: Let_def)

lemma jsonMatch_Some_parts:
  assumes "jsonMatch text = Some m"
  shows "\<exists>rest. text = takeWhile (\<lambda>c. c \<noteq> 91) text @ 91 # rest
           \<and> dropWhile (\<lambda>c. c \<noteq> 93) (rev rest) \<noteq> []
           \<and> m = 91 # rev (dropWhile (\<lambda>c. c \<noteq> 93) (rev rest))"
proof (cases "dropWhile (\<lambda>c. c \<noteq> 91) text")
  case Nil
  then have "jsonMatch text = None"
    by (rule jsonMatch_no_open)
  with assms show ?thesis by simp
next
  case (Cons x rest)
  have "x = 91"
    using Cons hd_dropWhile [of "\<lambda>c. c \<noteq> 91" "text"] by auto
  moreover have "text = takeWhile (\<lambda>c. c \<noteq> 91) text @ x # rest"
    using Cons takeWhile_dropWhile_id [of "\<lambda>c. c \<noteq> 91" "text"] by simp
  moreover have "dropWhile (\<lambda>c. c \<noteq> 93) (rev rest) \<noteq> []
      \<and> m = x # rev (dropWhile (\<lambda>c. c \<noteq> 93) (rev rest))"
    using assms jsonMatch_open [OF Cons] by (simp split: if_splits)
  ultimately show ?thesis by blast
qed

lemma jsonMatch_None_iff:
  "jsonMatch text = None \<longleftrightarrow> \<not> (\<exists>a b c. text = a @ 91 # b @ 93 # c)"
proof
  assume none: "jsonMatch text = None"
  show "\<not> (\<exists>a b c. text = a @ 91 # b @ 93 # c)"
  proof
    assume "\<exists>a b c. text = a @ 91 # b @ 93 # c"
    then obtain a b c where t: "text = a @ 91 # b @ 93 # c"
      by blast
    obtain r where r: "dropWhile (\<lambda>c. c \<noteq> (91::nat)) text = 91 # r" "93 \<in> set r"
      using dropWhile_open_bracket [of a b c] t by blast
    then have "dropWhile (\<lambda>c. c \<noteq> 93) (rev r) \<noteq> []"
      by (simp add: dropWhile_eq_Nil_conv)
    then have "jsonMatch text \<noteq> None"
      using jsonMatch_open [OF r(1)] by simp
    with none show False by simp
  qed
next
  assume no: "\<not> (\<exists>a b c. text = a @ 91 # b @ 93 # c)"
  show "jsonMatch text = None"
  proof (rule ccontr)
    assume "jsonMatch text \<noteq> None"
    then obtain m where "jsonMatch text = Some m"
      by blast
    then obtain rest where t: "text = takeWhile (\<lambda>c. c \<noteq> 91) text @ 91 # rest"
      and b: "dropWhile (\<lambda>c. c \<noteq> 93) (rev rest) \<noteq> []"
      using jsonMatch_Some_parts by blast
    have "93 \<in> set rest"
      using b by (auto simp add: dropWhile_eq_Nil_conv)
    then obtain u v where "rest = u @ 93 # v"
      by (auto dest: split_list)
    with t have "text = takeWhile (\<lambda>c. c \<noteq> 91) text @ 91 # u @ 93 # v"
      by simp
    with no show False by blast
  qed
qed

lemma jsonMatch_Some_shape:
  assumes "jsonMatch text = Some m"
  shows "\<exists>a b c. text = a @ m @ c \<and> m = 91 # b @ [93] \<and> 91 \<notin> set a \<and> 93 \<notin> set c"
proof -
  let ?a = "takeWhile (\<lambda>c. c \<noteq> 91) text"
  from assms obtain rest where t: "text = ?a @ 91 # rest"
    and b: "dropWhile (\<lambda>c. c \<noteq> 93) (rev rest) \<noteq> []"
    and m: "m = 91 # rev (dropWhile (\<lambda>c. c \<noteq> 93) (rev rest))"
    using jsonMatch_Some_parts by blast
  let ?body = "rev (dropWhile (\<lambda>c. c \<noteq> 93) (rev rest))"
  let ?c = "rev (takeWhile (\<lambda>c. c \<noteq> 93) (rev rest))"
  have "rev rest = takeWhile (\<lambda>c. c \<noteq> 93) (rev rest) @ dropWhile (\<lambda>c. c \<noteq> 93) (rev rest)"
    by simp
  then have "rev (rev rest) = ?body @ ?c"
    by (metis rev_append)
  then have split: "rest = ?body @ ?c"
    by simp
  have "hd (dropWhile (\<lambda>c. c \<noteq> 93) (rev rest)) = 93"
    using b hd_dropWhile [of "\<lambda>c. c \<noteq> 93" "rev rest"] by auto
  then have "last ?body = 93"
    using b by (simp add: last_rev)
  moreover have "?body \<noteq> []"
    using b by simp
  ultimately have body: "?body = butlast ?body @ [93]"
    by (metis append_butlast_last_id)
  have a: "91 \<notin> set ?a"
    using set_takeWhileD by fastforce
  have c: "93 \<notin> set ?c"
    using set_takeWhileD by fastforce
  have "text = ?a @ m @ ?c"
    using t split m by simp
  moreover have "m = 91 # butlast ?body @ [93]"
    using m body by simp
  ultimately show ?thesis
    using a c by blast
qed




lemma bracket_x_match: "jsonMatch bracket_x_text = Some bracket_x_text"
  by (simp add: jsonMatch_def bracket_x_text_def)


text \<open>
  A reply that does parse is taken as it is. If an object of the array has no
  \<open>relatedHashtags\<close> array, the hashtag analysis throws and the error reaches the caller
  of \<open>detectTrends\<close>: the fallback covers the parse, not the shape of what was parsed.
\<close>

lemma parsed_reply_can_fail:
  "fst (detectTrends (\<lambda>m. Some [Some bare_topic]) (TrendDetector_new (Some ''key''))
          news_request (quiet_env 5 (Replies bracket_x_text))) = Inl TypeError"
  by (simp add: detectTrends_def Let_def TrendDetector_new_def news_request_def quiet_env_def
      generateTrendingTopics_def bracket_x_match bare_topic_def enumerate_eq_zip
      analyzeHashtags_def)

subsection \<open>A detector without an API key serves the mock table\<close>

lemma mock_backed_detect:
  assumes "mock_backed st"
  shows "mock_backed (snd (detectTrends P st req env))"
proof (cases "cache_hit st req env")
  case (Some d)
  then show ?thesis
    using assms by (simp add: detectTrends_hit)
next
  case None
  let ?ts = "getMockTrendingTopics (buildTime env) (req_platform req) (req_category req)
               (requested_limit req)"
  have nc: "client st = False"
    using assms by (simp add: mock_backed_def)
  have gen: "generateTrendingTopics P (client st) (llm env) (buildTime env) (req_platform req)
               (req_category req) (requested_limit req) = ?ts"
    unfolding nc by (rule generate_without_client)
  obtain hs where r: "detectTrends P st req env =
           (Inr (built_response req env ?ts hs),
            st\<lparr>generationCalls := generationCalls st + 1,
               cachedTrends := (cachedTrends st)(getCacheKey req \<mapsto>
                 (built_response req env ?ts hs, buildTime env))\<rparr>)"
    using detectTrends_miss_mock [OF None gen] by blast
  have "\<exists>req' t. k = getCacheKey req'
          \<and> trends resp = getMockTrendingTopics t (req_platform req') (req_category req')
                            (requested_limit req')"
    if a: "((cachedTrends st)(getCacheKey req \<mapsto> (built_response req env ?ts hs, buildTime env))) k
           = Some (resp, ts)" for k resp ts
  proof (cases "k = getCacheKey req")
    case True
    with a have "trends resp = ?ts"
      by (auto simp add: built_response_def)
    with True show ?thesis by blast
  next
    case False
    with a have "cachedTrends st k = Some (resp, ts)"
      by simp
    then show ?thesis
      using assms unfolding mock_backed_def by blast
  qed
  then show ?thesis
    unfolding r mock_backed_def using nc by simp
qed

lemma keyless_mock_backed: "keyless P st \<Longrightarrow> mock_backed st"
proof (induction rule: keyless.induct)
  case keyless_new
  show ?case
    by (simp add: mock_backed_def TrendDetector_new_def)
next
  case (keyless_detect st request env)
  then show ?case
    by (simp add: mock_backed_detect)
next
  case (keyless_clear st)
  then show ?case
    by (simp add: mock_backed_def clearCache_def)
qed

text \<open>What a detector without a client returns, from the cache or not.\<close>

lemma keyless_trends:
  assumes inv: "mock_backed st"
  shows "\<exists>resp st' t n. detectTrends P st q env = (Inr resp, st')
           \<and> trends resp = getMockTrendingTopics t (req_platform q) (req_category q) n
           \<and> (req_limit q \<noteq> Some 0 \<longrightarrow> n = requested_limit q \<or> n = 0)"
proof (cases "cache_hit st q env")
  case None
  have nc: "client st = False"
    using inv by (simp add: mock_backed_def)
  have gen: "generateTrendingTopics P (client st) (llm env) (buildTime env) (req_platform q)
               (req_category q) (requested_limit q)
             = getMockTrendingTopics (buildTime env) (req_platform q) (req_category q)
                 (requested_limit q)"
    unfolding nc by (rule generate_without_client)
  obtain hs where "detectTrends P st q env =
           (Inr (built_response q env
                   (getMockTrendingTopics (buildTime env) (req_platform q) (req_category q)
                      (requested_limit q)) hs),
            st\<lparr>generationCalls := generationCalls st + 1,
               cachedTrends := (cachedTrends st)(getCacheKey q \<mapsto>
                 (built_response q env
                    (getMockTrendingTopics (buildTime env) (req_platform q) (req_category q)
                       (requested_limit q)) hs,
                  buildTime env))\<rparr>)"
    using detectTrends_miss_mock [OF None gen] by blast
  moreover have "trends (built_response q env
                   (getMockTrendingTopics (buildTime env) (req_platform q) (req_category q)
                      (requested_limit q)) hs)
                 = getMockTrendingTopics (buildTime env) (req_platform q) (req_category q)
                      (requested_limit q)"
    by (simp add: built_response_def)
  ultimately show ?thesis
    by blast
next
  case (Some d)
  then obtain ts where c: "cachedTrends st (getCacheKey q) = Some (d, ts)"
    by (auto simp: cache_hit_def split: option.splits if_splits)
  then obtain r t where k: "getCacheKey q = getCacheKey r"
    and tr: "trends d = getMockTrendingTopics t (req_platform r) (req_category r)
                          (requested_limit r)"
    using inv unfolding mock_backed_def by blast
  from getCacheKey_inj [OF k [symmetric]]
  have p: "req_platform r = req_platform q" and cat: "req_category r = req_category q"
    and l: "limit_or_10 (req_limit r) = limit_or_10 (req_limit q)"
    by simp_all
  have lq: "limit_or_10 (req_limit q) = requested_limit q" if "req_limit q \<noteq> Some 0"
    using that by (auto simp add: limit_or_10_def requested_limit_def split: option.splits)
  have "requested_limit r = limit_or_10 (req_limit r) \<or> requested_limit r = 0"
    by (auto simp add: limit_or_10_def requested_limit_def split: option.splits)
  then have "req_limit q \<noteq> Some 0
      \<longrightarrow> requested_limit r = requested_limit q \<or> requested_limit r = 0"
    using l lq by auto
  then show ?thesis
    using detectTrends_hit [OF Some, of P] tr p cat by auto
qed

text \<open>The first call on a new detector without a key builds the mock topics.\<close>

lemma fresh_detector_trends:
  "\<exists>hs. detectTrends P (TrendDetector_new None) q env =
          (Inr (built_response q env
                  (getMockTrendingTopics (buildTime env) (req_platform q) (req_category q)
                     (requested_limit q)) hs),
           (TrendDetector_new None)\<lparr>generationCalls := 1,
              cachedTrends := [getCacheKey q \<mapsto>
                (built_response q env
                   (getMockTrendingTopics (buildTime env) (req_platform q) (req_category q)
                      (requested_limit q)) hs,
                 buildTime env)]\<rparr>)"
proof -
  have miss: "cache_hit (TrendDetector_new None) q env = None"
    by (simp add: cache_hit_def TrendDetector_new_def)
  have nc: "client (TrendDetector_new None) = False"
    by (simp add: TrendDetector_new_def)
  have gen: "generateTrendingTopics P (client (TrendDetector_new None)) (llm env) (buildTime env)
               (req_platform q) (req_category q) (requested_limit q)
             = getMockTrendingTopics (buildTime env) (req_platform q) (req_category q)
                 (requested_limit q)"
    unfolding nc by (rule generate_without_client)
  show ?thesis
    using detectTrends_miss_mock [OF miss gen] by (simp add: TrendDetector_new_def)
qed

lemma fresh_detector_result:
  "\<not> isl (fst (detectTrends P (TrendDetector_new None) q env))
   \<and> trends (projr (fst (detectTrends P (TrendDetector_new None) q env)))
       = getMockTrendingTopics (buildTime env) (req_platform q) (req_category q)
           (requested_limit q)"
  using fresh_detector_trends [of P q env] by (auto simp add: built_response_def)

lemma three_topics:
  "length (getMockTrendingTopics now Threads None 3) = 3"
  "map topic_platform (getMockTrendingTopics now Threads None 3) = [Threads, Threads, Threads]"
  by (simp_all add: getMockTrendingTopics_def slice0_def Let_def)

text \<open>
  A negative limit cuts from the end: \<open>-1\<close> leaves four of the five topics. The limit
  \<open>0\<close> shares the cache key of the limit \<open>10\<close>, so a request for no trends can be
  answered from the cache with five.
\<close>

lemma negative_limit_cuts_from_the_end:
  "length (getMockTrendingTopics now Threads None (- 1)) = 4"
  by (simp add: getMockTrendingTopics_def slice0_def Let_def)

lemma limit_zero_shares_key:
  "getCacheKey (r\<lparr>req_limit := Some 0\<rparr>) = getCacheKey (r\<lparr>req_limit := None\<rparr>)
   \<and> getCacheKey (r\<lparr>req_limit := Some 0\<rparr>) = getCacheKey (r\<lparr>req_limit := Some 10\<rparr>)"
  by (simp add: getCacheKey_def limit_or_10_def)

lemma limit_zero_answered_from_cache:
  "length (trends (projr (fst
      (detectTrends P
         (snd (detectTrends P (TrendDetector_new None) (three_request\<lparr>req_limit := Some 10\<rparr>)
                 (quiet_env 1000 Throws)))
         (three_request\<lparr>req_limit := Some 0\<rparr>) (quiet_env 2000 Throws))))) = 5"
proof -
  let ?ten = "three_request\<lparr>req_limit := Some 10\<rparr>"
  let ?zero = "three_request\<lparr>req_limit := Some 0\<rparr>"
  let ?ts = "getMockTrendingTopics (buildTime (quiet_env 1000 Throws)) (req_platform ?ten)
               (req_category ?ten) (requested_limit ?ten)"
  obtain hs where first: "detectTrends P (TrendDetector_new None) ?ten (quiet_env 1000 Throws) =
      (Inr (built_response ?ten (quiet_env 1000 Throws) ?ts hs),
       (TrendDetector_new None)\<lparr>generationCalls := 1,
          cachedTrends := [getCacheKey ?ten \<mapsto>
            (built_response ?ten (quiet_env 1000 Throws) ?ts hs,
             buildTime (quiet_env 1000 Throws))]\<rparr>)"
    using fresh_detector_trends [of P ?ten "quiet_env 1000 Throws"] by blast
  have key: "getCacheKey ?zero = getCacheKey ?ten"
    using limit_zero_shares_key [of three_request] by blast
  have hit: "cache_hit (snd (detectTrends P (TrendDetector_new None) ?ten (quiet_env 1000 Throws)))
               ?zero (quiet_env 2000 Throws)
             = Some (built_response ?ten (quiet_env 1000 Throws) ?ts hs)"
    unfolding first cache_hit_def key by (simp add: quiet_env_def cacheExpiryMs_def)
  have "length ?ts = 5"
    by (simp add: three_request_def requested_limit_def getMockTrendingTopics_def slice0_def
        Let_def)
  then show ?thesis
    unfolding detectTrends_hit [OF hit] by (simp add: built_response_def)
qed

text \<open>
  C10, as stated, fails: the bound \<open>min(limit, 5)\<close> does not hold for every request. The
  detector does not check the limit, and \<open>slice(0, -1)\<close> drops the last topic only: a new
  detector without a key answers the request for platform \<open>threads\<close>, no category and
  limit \<open>-1\<close> with four trends, more than \<open>min(-1, 5)\<close>.
\<close>

theorem C10_negative_limit_counterexample:
  "\<not> isl (fst (detectTrends reject_all (TrendDetector_new None) minus_one_request
                (quiet_env 1000 Throws)))
   \<and> length (trends (projr (fst (detectTrends reject_all (TrendDetector_new None)
                                   minus_one_request (quiet_env 1000 Throws))))) = 4
   \<and> min (requested_limit minus_one_request) 5 = - 1
   \<and> \<not> int (length (trends (projr (fst (detectTrends reject_all (TrendDetector_new None)
                                          minus_one_request (quiet_env 1000 Throws))))))
         \<le> min (requested_limit minus_one_request) 5"
proof -
  have "length (getMockTrendingTopics (buildTime (quiet_env 1000 Throws))
                  (req_platform minus_one_request) (req_category minus_one_request)
                  (requested_limit minus_one_request)) = 4"
    by (simp add: minus_one_request_def requested_limit_def negative_limit_cuts_from_the_end)
  moreover have "min (requested_limit minus_one_request) 5 = - 1"
    by (simp add: minus_one_request_def requested_limit_def)
  ultimately show ?thesis
    using fresh_detector_result [of reject_all minus_one_request "quiet_env 1000 Throws"]
    by simp
qed

text \<open>
  C10, amended: on a detector that never had an API key, \<open>detectTrends\<close> returns for every
  request a response (never an error), from the cache or freshly built, whose trends
  are mock topics of the requested platform, filtered by the requested category: every
  trend has the requested platform, every trend has the requested category when one is
  given, and there are at most 5. When the limit is absent (then it counts as 10) or at
  least 1, as the trend route requires of a request, there are at most \<open>min(limit, 5)\<close>.
  For platform \<open>threads\<close> and category \<open>news\<close> the list is empty, whatever the limit.
\<close>

theorem C10_keyless_detector_serves_mock_table:
  assumes keyless: "keyless P st"
  shows "\<exists>resp st'. detectTrends P st q env = (Inr resp, st')
           \<and> (\<exists>t n. trends resp = getMockTrendingTopics t (req_platform q) (req_category q) n)
           \<and> (\<forall>x \<in> set (trends resp). topic_platform x = req_platform q)
           \<and> (\<forall>c. req_category q = Some c \<longrightarrow> (\<forall>x \<in> set (trends resp). topic_category x = c))
           \<and> length (trends resp) \<le> 5
           \<and> (req_limit q = None \<or> (\<exists>n. req_limit q = Some n \<and> 1 \<le> n)
                \<longrightarrow> int (length (trends resp)) \<le> min (requested_limit q) 5)
           \<and> (req_platform q = Threads \<and> req_category q = Some News \<longrightarrow> trends resp = [])"
proof -
  have inv: "mock_backed st"
    using keyless by (rule keyless_mock_backed)
  obtain resp st' t n where d: "detectTrends P st q env = (Inr resp, st')"
    and tr: "trends resp = getMockTrendingTopics t (req_platform q) (req_category q) n"
    and n: "req_limit q \<noteq> Some 0 \<longrightarrow> n = requested_limit q \<or> n = 0"
    using keyless_trends [OF inv] by blast
  have pl: "\<forall>x \<in> set (trends resp). topic_platform x = req_platform q"
    unfolding tr using getMock_platform by blast
  have ca: "\<forall>c. req_category q = Some c \<longrightarrow> (\<forall>x \<in> set (trends resp). topic_category x = c)"
    unfolding tr using getMock_category by auto
  have five: "length (trends resp) \<le> 5"
    unfolding tr using getMock_length_five by blast
  have le: "int (length (trends resp)) \<le> min (requested_limit q) 5"
    if valid: "req_limit q = None \<or> (\<exists>n. req_limit q = Some n \<and> 1 \<le> n)"
  proof -
    have pos: "0 \<le> requested_limit q"
      using valid by (auto simp add: requested_limit_def)
    have "req_limit q \<noteq> Some 0"
      using valid by auto
    with n have "n = requested_limit q \<or> n = 0"
      by simp
    then show ?thesis
    proof
      assume "n = requested_limit q"
      then show ?thesis
        unfolding tr using getMock_length [OF pos] by simp
    next
      assume "n = 0"
      then show ?thesis
        unfolding tr using pos by (simp add: getMock_zero)
    qed
  qed
  have ex: "req_platform q = Threads \<and> req_category q = Some News \<longrightarrow> trends resp = []"
    unfolding tr by (auto simp add: getMock_threads_news)
  show ?thesis
    using d tr pl ca five le ex by blast
qed

theorem C10_keyless_detector_serves_mock_table_witness:
  "keyless reject_all (TrendDetector_new None)
   \<and> (\<exists>n. req_limit three_request = Some n \<and> 1 \<le> n)
   \<and> (\<exists>n. req_limit news_request = Some n \<and> 1 \<le> n)
   \<and> req_platform news_request = Threads \<and> req_category news_request = Some News
   \<and> (\<exists>resp st'. detectTrends reject_all (TrendDetector_new None) three_request
                     (quiet_env 1000 Throws) = (Inr resp, st')
          \<and> length (trends resp) = 3
          \<and> map topic_platform (trends resp) = [Threads, Threads, Threads]
          \<and> int (length (trends resp)) \<le> min (requested_limit three_request) 5)
   \<and> (\<exists>resp st'. detectTrends reject_all (TrendDetector_new None) news_request
                     (quiet_env 1000 Throws) = (Inr resp, st')
          \<and> trends resp = []
          \<and> int (length (trends resp)) \<le> min (requested_limit news_request) 5)"
proof -
  have k: "keyless reject_all (TrendDetector_new None)"
    by (rule keyless.keyless_new)
  have v3: "\<exists>n. req_limit three_request = Some n \<and> 1 \<le> n"
    by (simp add: three_request_def)
  have v: "\<exists>n. req_limit news_request = Some n \<and> 1 \<le> n"
    by (simp add: news_request_def)
  have pc: "req_platform news_request = Threads \<and> req_category news_request = Some News"
    by (simp add: news_request_def)
  have t3: "trends (projr (fst (detectTrends reject_all (TrendDetector_new None) three_request
                                  (quiet_env 1000 Throws))))
              = getMockTrendingTopics 1000 Threads None 3"
    using fresh_detector_result [of reject_all three_request "quiet_env 1000 Throws"]
    by (simp add: three_request_def requested_limit_def quiet_env_def)
  have three: "\<exists>resp st'. detectTrends reject_all (TrendDetector_new None) three_request
                     (quiet_env 1000 Throws) = (Inr resp, st')
          \<and> length (trends resp) = 3
          \<and> map topic_platform (trends resp) = [Threads, Threads, Threads]
          \<and> int (length (trends resp)) \<le> min (requested_limit three_request) 5"
    using v3 t3 three_topics [of 1000]
      C10_keyless_detector_serves_mock_table [OF k, of three_request "quiet_env 1000 Throws"]
    by auto
  have news: "\<exists>resp st'. detectTrends reject_all (TrendDetector_new None) news_request
                     (quiet_env 1000 Throws) = (Inr resp, st')
          \<and> trends resp = []
          \<and> int (length (trends resp)) \<le> min (requested_limit news_request) 5"
    using v pc
      C10_keyless_detector_serves_mock_table [OF k, of news_request "quiet_env 1000 Throws"]
    by auto
  show ?thesis
    using k v3 v pc three news by blast
qed

end
